theory Spec2Isabelle
  imports Main
begin

section \<open>Python values\<close>

text \<open>
  The fields of a \<open>TodoItem\<close> are not checked by the program: \<open>from_dict\<close> stores
  whatever \<open>json.load\<close> returned. The values that \<open>json.load\<close> can return are
  \<open>None\<close>, booleans, integers, strings, lists and dictionaries with string keys
  (a dictionary is kept as an association list in insertion order, looked up with
  \<open>map_of\<close>). Python strings are HOL strings. JSON numbers with a fraction or an
  exponent, which Python reads as floats, are not represented.
\<close>

datatype pyval =
    PNone
  | PBool bool
  | PInt int
  | PStr string
  | PList "pyval list"
  | PDict "(string \<times> pyval) list"

datatype error = KeyError | TypeError | JSONDecodeError | FileNotFoundError

text \<open>Truth value testing, as used by \<open>or\<close> and \<open>not\<close>.\<close>

fun truthy :: "pyval \<Rightarrow> bool" where
  "truthy PNone = False"
| "truthy (PBool b) = b"
| "truthy (PInt n) = (n \<noteq> 0)"
| "truthy (PStr s) = (s \<noteq> [])"
| "truthy (PList xs) = (xs \<noteq> [])"
| "truthy (PDict kvs) = (kvs \<noteq> [])"

text \<open>\<open>a or b\<close>: the first operand when it is true, the second otherwise.\<close>

definition py_or :: "pyval \<Rightarrow> pyval \<Rightarrow> pyval" where
  "py_or a b = (if truthy a then a else b)"

text \<open>
  \<open>data[key]\<close> with a string key: a dictionary raises \<open>KeyError\<close> when the key is
  absent; every other value (a list, a string, a number, \<open>None\<close>) raises
  \<open>TypeError\<close>.
\<close>

fun getitem :: "pyval \<Rightarrow> string \<Rightarrow> error + pyval" where
  "getitem (PDict kvs) k = (case map_of kvs k of None \<Rightarrow> Inl KeyError | Some v \<Rightarrow> Inr v)"
| "getitem PNone k = Inl TypeError"
| "getitem (PBool b) k = Inl TypeError"
| "getitem (PInt n) k = Inl TypeError"
| "getitem (PStr s) k = Inl TypeError"
| "getitem (PList xs) k = Inl TypeError"

text \<open>
  \<open>v == k\<close> for an integer \<open>k\<close>: booleans are the integers 0 and 1, and a value
  of any other type is never equal to an integer.
\<close>

fun py_eq_int :: "pyval \<Rightarrow> int \<Rightarrow> bool" where
  "py_eq_int (PInt n) k = (n = k)"
| "py_eq_int (PBool b) k = ((if b then 1 else 0) = k)"
| "py_eq_int PNone k = False"
| "py_eq_int (PStr s) k = False"
| "py_eq_int (PList xs) k = False"
| "py_eq_int (PDict kvs) k = False"

section \<open>TodoItem\<close>

record TodoItem =
  item_id :: pyval
  description :: pyval
  completed :: pyval
  created_at :: pyval

text \<open>
  \<open>TodoItem.__init__\<close>. The reading of \<open>datetime.now().isoformat()\<close> at the time
  of the call is the parameter \<open>now\<close>. The defaults of the source are
  \<open>completed=False\<close> and \<open>created_at=None\<close>.
\<close>

definition TodoItem_init :: "string \<Rightarrow> pyval \<Rightarrow> pyval \<Rightarrow> pyval \<Rightarrow> pyval \<Rightarrow> TodoItem" where
  "TodoItem_init now i d c t =
     \<lparr>item_id = i, description = d, completed = c, created_at = py_or t (PStr now)\<rparr>"

definition to_dict :: "TodoItem \<Rightarrow> pyval" where
  "to_dict x = PDict
     [(''id'', item_id x),
      (''description'', description x),
      (''completed'', completed x),
      (''created_at'', created_at x)]"

text \<open>
  \<open>TodoItem.from_dict\<close>: the four subscripts are evaluated in the order of the
  keyword arguments, and the first one that raises ends the call.
\<close>

definition from_dict :: "string \<Rightarrow> pyval \<Rightarrow> error + TodoItem" where
  "from_dict now data =
     (case getitem data ''id'' of Inl e \<Rightarrow> Inl e | Inr i \<Rightarrow>
      (case getitem data ''description'' of Inl e \<Rightarrow> Inl e | Inr d \<Rightarrow>
       (case getitem data ''completed'' of Inl e \<Rightarrow> Inl e | Inr c \<Rightarrow>
        (case getitem data ''created_at'' of Inl e \<Rightarrow> Inl e | Inr t \<Rightarrow>
           Inr (TodoItem_init now i d c t)))))"

text \<open>The keys \<open>from_dict\<close> reads.\<close>

definition has_keys :: "(string \<times> pyval) list \<Rightarrow> bool" where
  "has_keys kvs \<longleftrightarrow>
     map_of kvs ''id'' \<noteq> None \<and> map_of kvs ''description'' \<noteq> None \<and>
     map_of kvs ''completed'' \<noteq> None \<and> map_of kvs ''created_at'' \<noteq> None"

section \<open>TodoManager\<close>

text \<open>
  What the program can find at \<open>self.filename\<close>: no file, a file that
  \<open>json.load\<close> rejects with \<open>JSONDecodeError\<close>, or a file that \<open>json.load\<close>
  reads as a value. \<open>json.dump\<close> followed by \<open>json.load\<close> gives back the value
  written, so the file is kept as the value it holds. Failures of the operating
  system (permissions, a full disk) are outside the model.
\<close>

datatype storage = Absent | Malformed | Json pyval

text \<open>
  The state of a manager: the list \<open>self.todos\<close>, the content of the file at
  \<open>self.filename\<close>, and the number of calls of \<open>save_todos\<close> made so far.
\<close>

record TodoManager =
  todos :: "TodoItem list"
  content :: storage
  saves :: nat

text \<open>
  \<open>for item in data\<close>: a list yields its elements, a dictionary its keys, a string
  its characters; \<open>None\<close>, a boolean and an integer are not iterable.
\<close>

fun py_iter :: "pyval \<Rightarrow> error + pyval list" where
  "py_iter (PList xs) = Inr xs"
| "py_iter (PDict kvs) = Inr (map (\<lambda>kv. PStr (fst kv)) kvs)"
| "py_iter (PStr s) = Inr (map (\<lambda>c. PStr [c]) s)"
| "py_iter PNone = Inl TypeError"
| "py_iter (PBool b) = Inl TypeError"
| "py_iter (PInt n) = Inl TypeError"

text \<open>
  The comprehension \<open>[TodoItem.from_dict(item) for item in data]\<close>: items are
  converted in order and the first exception ends the comprehension. \<open>clock n\<close> is
  the reading of the clock while item number \<open>n\<close> is constructed.
\<close>

fun from_dicts :: "(nat \<Rightarrow> string) \<Rightarrow> nat \<Rightarrow> pyval list \<Rightarrow> error + TodoItem list" where
  "from_dicts clock n [] = Inr []"
| "from_dicts clock n (item # items) =
     (case from_dict (clock n) item of
        Inl e \<Rightarrow> Inl e
      | Inr t \<Rightarrow>
          (case from_dicts clock (Suc n) items of
             Inl e \<Rightarrow> Inl e
           | Inr ts \<Rightarrow> Inr (t # ts)))"

definition json_load :: "storage \<Rightarrow> error + pyval" where
  "json_load f =
     (case f of
        Absent \<Rightarrow> Inl FileNotFoundError
      | Malformed \<Rightarrow> Inl JSONDecodeError
      | Json v \<Rightarrow> Inr v)"

text \<open>The body of the \<open>try\<close> block of \<open>load_todos\<close>.\<close>

definition read_todos :: "(nat \<Rightarrow> string) \<Rightarrow> storage \<Rightarrow> error + TodoItem list" where
  "read_todos clock f =
     (case json_load f of
        Inl e \<Rightarrow> Inl e
      | Inr data \<Rightarrow>
          (case py_iter data of
             Inl e \<Rightarrow> Inl e
           | Inr items \<Rightarrow> from_dicts clock 0 items))"

text \<open>
  \<open>load_todos\<close>: the handler catches \<open>JSONDecodeError\<close> and \<open>KeyError\<close> only; any
  other exception leaves the method, and with it the constructor.
\<close>

definition load_todos :: "(nat \<Rightarrow> string) \<Rightarrow> TodoManager \<Rightarrow> error + TodoManager" where
  "load_todos clock m =
     (if content m \<noteq> Absent then
        (case read_todos clock (content m) of
           Inr ts \<Rightarrow> Inr (m\<lparr>todos := ts\<rparr>)
         | Inl JSONDecodeError \<Rightarrow> Inr (m\<lparr>todos := []\<rparr>)
         | Inl KeyError \<Rightarrow> Inr (m\<lparr>todos := []\<rparr>)
         | Inl TypeError \<Rightarrow> Inl TypeError
         | Inl FileNotFoundError \<Rightarrow> Inl FileNotFoundError)
      else Inr m)"

definition TodoManager_init :: "(nat \<Rightarrow> string) \<Rightarrow> storage \<Rightarrow> error + TodoManager" where
  "TodoManager_init clock f = load_todos clock \<lparr>todos = [], content = f, saves = 0\<rparr>"

definition save_todos :: "TodoManager \<Rightarrow> TodoManager" where
  "save_todos m = m\<lparr>content := Json (PList (map to_dict (todos m))), saves := Suc (saves m)\<rparr>"

subsection \<open>add_todo\<close>

text \<open>
  \<open>max([todo.id for todo in self.todos], default=0) + 1\<close>. Integers and booleans
  compare and add as numbers, and the sum is an integer. With an id of any other
  type the expression raises \<open>TypeError\<close>: comparing it with a number does, and when
  no id is a number the maximum is not one and adding 1 to it does.
\<close>

fun py_num :: "pyval \<Rightarrow> int option" where
  "py_num (PInt n) = Some n"
| "py_num (PBool b) = Some (if b then 1 else 0)"
| "py_num PNone = None"
| "py_num (PStr s) = None"
| "py_num (PList xs) = None"
| "py_num (PDict kvs) = None"

fun py_nums :: "pyval list \<Rightarrow> int list option" where
  "py_nums [] = Some []"
| "py_nums (v # vs) =
     (case py_num v of
        None \<Rightarrow> None
      | Some n \<Rightarrow> (case py_nums vs of None \<Rightarrow> None | Some ns \<Rightarrow> Some (n # ns)))"

text \<open>The loop of \<open>max\<close>: the running maximum is replaced by a greater item only.\<close>

fun max_from :: "int \<Rightarrow> int list \<Rightarrow> int" where
  "max_from m [] = m"
| "max_from m (x # xs) = max_from (if x > m then x else m) xs"

fun py_max :: "int list \<Rightarrow> int \<Rightarrow> int" where
  "py_max [] dflt = dflt"
| "py_max (x # xs) dflt = max_from x xs"

definition next_id :: "pyval list \<Rightarrow> error + pyval" where
  "next_id ids =
     (case py_nums ids of
        None \<Rightarrow> Inl TypeError
      | Some ns \<Rightarrow> Inr (PInt (py_max ns 0 + 1)))"

definition add_todo :: "string \<Rightarrow> string \<Rightarrow> TodoManager \<Rightarrow> error + (TodoItem \<times> TodoManager)" where
  "add_todo descr now m =
     (case next_id (map item_id (todos m)) of
        Inl e \<Rightarrow> Inl e
      | Inr new_id \<Rightarrow>
          (let todo = TodoItem_init now new_id (PStr descr) (PBool False) PNone
           in Inr (todo, save_todos (m\<lparr>todos := todos m @ [todo]\<rparr>))))"

subsection \<open>Operations that look a record up\<close>

text \<open>
  The loops of \<open>complete_todo\<close>, \<open>remove_todo\<close> and \<open>edit_todo\<close> stop at the first
  record with \<open>todo.id == todo_id\<close>; \<open>find_first\<close> is the position of that record.
\<close>

fun find_first :: "int \<Rightarrow> TodoItem list \<Rightarrow> nat option" where
  "find_first k [] = None"
| "find_first k (t # ts) =
     (if py_eq_int (item_id t) k then Some 0
      else (case find_first k ts of None \<Rightarrow> None | Some i \<Rightarrow> Some (Suc i)))"

definition complete_todo :: "int \<Rightarrow> TodoManager \<Rightarrow> bool \<times> TodoManager" where
  "complete_todo todo_id m =
     (case find_first todo_id (todos m) of
        Some i \<Rightarrow>
          (True, save_todos (m\<lparr>todos := (todos m)[i := (todos m ! i)\<lparr>completed := PBool True\<rparr>]\<rparr>))
      | None \<Rightarrow> (False, m))"

definition remove_todo :: "int \<Rightarrow> TodoManager \<Rightarrow> bool \<times> TodoManager" where
  "remove_todo todo_id m =
     (case find_first todo_id (todos m) of
        Some i \<Rightarrow> (True, save_todos (m\<lparr>todos := take i (todos m) @ drop (Suc i) (todos m)\<rparr>))
      | None \<Rightarrow> (False, m))"

definition edit_todo :: "int \<Rightarrow> string \<Rightarrow> TodoManager \<Rightarrow> bool \<times> TodoManager" where
  "edit_todo todo_id new_description m =
     (case find_first todo_id (todos m) of
        Some i \<Rightarrow>
          (True,
           save_todos (m\<lparr>todos := (todos m)[i := (todos m ! i)\<lparr>description := PStr new_description\<rparr>]\<rparr>))
      | None \<Rightarrow> (False, m))"

definition clear_completed :: "TodoManager \<Rightarrow> int \<times> TodoManager" where
  "clear_completed m =
     (let initial_count = int (length (todos m));
          m1 = m\<lparr>todos := filter (\<lambda>todo. \<not> truthy (completed todo)) (todos m)\<rparr>;
          removed_count = initial_count - int (length (todos m1))
      in (removed_count, if removed_count > 0 then save_todos m1 else m1))"

subsection \<open>Sequences of calls\<close>

text \<open>
  A call of one of the five mutating methods (an \<open>Add\<close> carries the description and
  the reading of the clock during the call), what it returns, and the execution of a
  list of calls by one manager; an exception ends the execution.
\<close>

datatype call =
    Add string string
  | Complete int
  | Remove int
  | Edit int string
  | ClearCompleted

datatype returned = Item TodoItem | Flag bool | Count int

fun call_method :: "call \<Rightarrow> TodoManager \<Rightarrow> error + (returned \<times> TodoManager)" where
  "call_method (Add descr now) m =
     (case add_todo descr now m of Inl e \<Rightarrow> Inl e | Inr (t, m') \<Rightarrow> Inr (Item t, m'))"
| "call_method (Complete k) m = (case complete_todo k m of (b, m') \<Rightarrow> Inr (Flag b, m'))"
| "call_method (Remove k) m = (case remove_todo k m of (b, m') \<Rightarrow> Inr (Flag b, m'))"
| "call_method (Edit k d) m = (case edit_todo k d m of (b, m') \<Rightarrow> Inr (Flag b, m'))"
| "call_method ClearCompleted m = (case clear_completed m of (n, m') \<Rightarrow> Inr (Count n, m'))"

fun run :: "call list \<Rightarrow> TodoManager \<Rightarrow> error + (returned list \<times> TodoManager)" where
  "run [] m = Inr ([], m)"
| "run (c # cs) m =
     (case call_method c m of
        Inl e \<Rightarrow> Inl e
      | Inr (r, m') \<Rightarrow>
          (case run cs m' of
             Inl e \<Rightarrow> Inl e
           | Inr (rs, m'') \<Rightarrow> Inr (r # rs, m'')))"

subsection \<open>Types of the fields\<close>

text \<open>
  The annotation \<open>id: int\<close> of \<open>TodoItem.__init__\<close> is not enforced when the
  program runs. Statements about ids say which values they speak of with this test:
  the value is an integer (and not a boolean).
\<close>

fun is_int :: "pyval \<Rightarrow> bool" where
  "is_int (PInt n) = True"
| "is_int PNone = False"
| "is_int (PBool b) = False"
| "is_int (PStr s) = False"
| "is_int (PList xs) = False"
| "is_int (PDict kvs) = False"

text \<open>The order of two integer ids; a value that is not an integer is not ordered.\<close>

fun id_less :: "pyval \<Rightarrow> pyval \<Rightarrow> bool" where
  "id_less (PInt i) (PInt j) = (i < j)"
| "id_less (PInt i) PNone = False"
| "id_less (PInt i) (PBool b) = False"
| "id_less (PInt i) (PStr s) = False"
| "id_less (PInt i) (PList xs) = False"
| "id_less (PInt i) (PDict kvs) = False"
| "id_less PNone w = False"
| "id_less (PBool b) w = False"
| "id_less (PStr s) w = False"
| "id_less (PList xs) w = False"
| "id_less (PDict kvs) w = False"

subsection \<open>Properties of the ids of a collection\<close>

text \<open>
  The ids are integers and pairwise distinct; the ids are integers and increase
  strictly along the collection.
\<close>

definition distinct_int_ids :: "TodoItem list \<Rightarrow> bool" where
  "distinct_int_ids ts \<longleftrightarrow> (\<forall>t\<in>set ts. is_int (item_id t)) \<and> distinct (map item_id ts)"

definition increasing_int_ids :: "TodoItem list \<Rightarrow> bool" where
  "increasing_int_ids ts \<longleftrightarrow>
     (\<forall>t\<in>set ts. is_int (item_id t)) \<and> sorted_wrt id_less (map item_id ts)"

section \<open>Serialisation\<close>

lemma from_dict_to_dict:
  "from_dict now (to_dict x) = Inr (x\<lparr>created_at := py_or (created_at x) (PStr now)\<rparr>)"
  by (simp add: from_dict_def to_dict_def TodoItem_init_def)

lemma from_dict_PDict:
  "from_dict now (PDict kvs) =
     (if has_keys kvs
      then Inr (TodoItem_init now (the (map_of kvs ''id'')) (the (map_of kvs ''description''))
                  (the (map_of kvs ''completed'')) (the (map_of kvs ''created_at'')))
      else Inl KeyError)"
  by (auto simp: from_dict_def has_keys_def split: option.splits)

lemma from_dict_id: "from_dict now x = Inr t \<Longrightarrow> getitem x ''id'' = Inr (item_id t)"
  by (auto simp: from_dict_def TodoItem_init_def split: sum.splits)

section \<open>Loading\<close>

lemma from_dicts_KeyError:
  assumes "\<forall>x\<in>set items. \<exists>kvs. x = PDict kvs"
    and "\<exists>kvs. PDict kvs \<in> set items \<and> \<not> has_keys kvs"
  shows "from_dicts clock n items = Inl KeyError"
  using assms
proof (induction items arbitrary: n)
  case Nil
  then show ?case by simp
next
  case (Cons x items)
  from Cons.prems(1) obtain kvs where x: "x = PDict kvs" by auto
  show ?case
  proof (cases "has_keys kvs")
    case False
    then show ?thesis by (simp add: x from_dict_PDict)
  next
    case True
    with Cons.prems(2) x have "\<exists>kvs. PDict kvs \<in> set items \<and> \<not> has_keys kvs" by auto
    with Cons.IH [of "Suc n"] Cons.prems(1) have "from_dicts clock (Suc n) items = Inl KeyError"
      by simp
    with True show ?thesis by (simp add: x from_dict_PDict)
  qed
qed

lemma from_dicts_all:
  assumes "\<forall>x\<in>set items. \<exists>kvs. x = PDict kvs \<and> has_keys kvs"
  shows "\<exists>ts. from_dicts clock n items = Inr ts \<and> length ts = length items \<and>
           (\<forall>j<length items. from_dict (clock (n + j)) (items ! j) = Inr (ts ! j))"
  using assms
proof (induction items arbitrary: n)
  case Nil
  show ?case by simp
next
  case (Cons x items)
  from Cons.prems obtain kvs where x: "x = PDict kvs" "has_keys kvs" by auto
  then obtain t where t: "from_dict (clock n) x = Inr t" by (simp add: from_dict_PDict)
  from Cons.IH [of "Suc n"] Cons.prems obtain ts where
    ts: "from_dicts clock (Suc n) items = Inr ts" "length ts = length items"
      "\<forall>j<length items. from_dict (clock (Suc n + j)) (items ! j) = Inr (ts ! j)"
    by auto
  have "\<forall>j<length (x # items). from_dict (clock (n + j)) ((x # items) ! j) = Inr ((t # ts) ! j)"
  proof (intro allI impI)
    fix j
    assume "j < length (x # items)"
    then show "from_dict (clock (n + j)) ((x # items) ! j) = Inr ((t # ts) ! j)"
      using t ts(3) by (cases j) simp_all
  qed
  moreover have "from_dicts clock n (x # items) = Inr (t # ts)"
    using t ts(1) by simp
  moreover have "length (t # ts) = length (x # items)"
    using ts(2) by simp
  ultimately show ?case by blast
qed

lemma from_dicts_ids:
  "from_dicts clock n items = Inr ts \<Longrightarrow>
     map (\<lambda>x. getitem x ''id'') items = map (\<lambda>t. Inr (item_id t)) ts"
proof (induction items arbitrary: n ts)
  case Nil
  then show ?case by simp
next
  case (Cons x items)
  from Cons.prems obtain t ts' where
    t: "from_dict (clock n) x = Inr t" and ts': "from_dicts clock (Suc n) items = Inr ts'"
    and ts: "ts = t # ts'"
    by (auto split: sum.splits)
  from Cons.IH [OF ts'] from_dict_id [OF t] show ?case by (simp add: ts)
qed

lemma TodoManager_init_Absent:
  "TodoManager_init clock Absent = Inr \<lparr>todos = [], content = Absent, saves = 0\<rparr>"
  by (simp add: TodoManager_init_def load_todos_def)

lemma TodoManager_init_Malformed:
  "TodoManager_init clock Malformed = Inr \<lparr>todos = [], content = Malformed, saves = 0\<rparr>"
  by (simp add: TodoManager_init_def load_todos_def read_todos_def json_load_def)

lemma TodoManager_init_PList:
  "TodoManager_init clock (Json (PList items)) =
     (case from_dicts clock 0 items of
        Inr ts \<Rightarrow> Inr \<lparr>todos = ts, content = Json (PList items), saves = 0\<rparr>
      | Inl JSONDecodeError \<Rightarrow> Inr \<lparr>todos = [], content = Json (PList items), saves = 0\<rparr>
      | Inl KeyError \<Rightarrow> Inr \<lparr>todos = [], content = Json (PList items), saves = 0\<rparr>
      | Inl TypeError \<Rightarrow> Inl TypeError
      | Inl FileNotFoundError \<Rightarrow> Inl FileNotFoundError)"
  by (simp add: TodoManager_init_def load_todos_def read_todos_def json_load_def
      split: sum.splits error.splits)

section \<open>The next id\<close>

lemma py_nums_PInt: "py_nums (map PInt ns) = Some ns"
  by (induction ns) simp_all

lemma max_from_Max: "max_from m xs = Max (insert m (set xs))"
proof (induction xs arbitrary: m)
  case Nil
  show ?case by simp
next
  case (Cons x xs)
  have "(if m < x then x else m) = max m x" by (simp add: max_def)
  then have "max_from m (x # xs) = Max (insert (max m x) (set xs))"
    using Cons.IH [of "max m x"] by simp
  also have "\<dots> = Max (insert m (insert x (set xs)))"
    by (cases "set xs = {}") (simp_all add: max.assoc)
  finally show ?case by simp
qed

lemma py_max_Max: "py_max ns d = (if ns = [] then d else Max (set ns))"
  by (cases ns) (simp_all add: max_from_Max)

lemma next_id_PInt:
  "next_id (map PInt ns) = Inr (PInt ((if ns = [] then 0 else Max (set ns)) + 1))"
  by (simp add: next_id_def py_nums_PInt py_max_Max)

lemma is_int_PInt: "is_int v \<Longrightarrow> \<exists>n. v = PInt n"
  by (cases v) simp_all

lemma ints_as_list: "\<forall>v\<in>set vs. is_int v \<Longrightarrow> \<exists>ns. vs = map PInt ns"
proof (induction vs)
  case Nil
  show ?case by simp
next
  case (Cons v vs)
  then obtain n ns where "v = PInt n" "vs = map PInt ns"
    using is_int_PInt by fastforce
  then have "v # vs = map PInt (n # ns)" by simp
  then show ?case by (rule exI)
qed

lemma add_todo_PInt:
  assumes "map item_id (todos m) = map PInt ns"
  shows "add_todo d now m =
     Inr (\<lparr>item_id = PInt ((if ns = [] then 0 else Max (set ns)) + 1), description = PStr d,
           completed = PBool False, created_at = PStr now\<rparr>,
          m\<lparr>todos := todos m @
             [\<lparr>item_id = PInt ((if ns = [] then 0 else Max (set ns)) + 1), description = PStr d,
               completed = PBool False, created_at = PStr now\<rparr>],
           content := Json (PList (map to_dict (todos m @
             [\<lparr>item_id = PInt ((if ns = [] then 0 else Max (set ns)) + 1), description = PStr d,
               completed = PBool False, created_at = PStr now\<rparr>]))),
           saves := Suc (saves m)\<rparr>)"
  by (simp add: add_todo_def assms next_id_PInt TodoItem_init_def py_or_def save_todos_def Let_def)

lemma Max_succ_fresh: "(if ns = [] then 0 else Max (set ns)) + 1 \<notin> set (ns :: int list)"
proof
  assume mem: "(if ns = [] then 0 else Max (set ns)) + 1 \<in> set ns"
  then have "ns \<noteq> []" by auto
  with mem have "Max (set ns) + 1 \<in> set ns" by simp
  then have "Max (set ns) + 1 \<le> Max (set ns)" by (intro Max_ge) simp_all
  then show False by simp
qed

lemma id_less_Max_succ:
  assumes "v \<in> set (map PInt ns)"
  shows "id_less v (PInt ((if ns = [] then 0 else Max (set ns)) + 1))"
proof -
  from assms obtain k where k: "v = PInt k" "k \<in> set ns" by auto
  then have "ns \<noteq> []" by auto
  moreover from k have "k \<le> Max (set ns)" by simp
  ultimately show ?thesis by (simp add: k)
qed

lemma Max_upto: "1 \<le> k \<Longrightarrow> Max (set [1..k]) = k"
  by (simp add: Max_eq_iff)

lemma next_after_upto: "0 \<le> k \<Longrightarrow> (if [1..k] = [] then 0 else Max (set [1..k])) + 1 = k + 1"
  using Max_upto [of k] by (cases "k = 0") auto

section \<open>Looking a record up\<close>

lemma find_first_Some:
  "find_first k ts = Some i \<longleftrightarrow>
     i < length ts \<and> py_eq_int (item_id (ts ! i)) k \<and> (\<forall>j<i. \<not> py_eq_int (item_id (ts ! j)) k)"
proof (induction ts arbitrary: i)
  case Nil
  show ?case by simp
next
  case (Cons t ts)
  show ?case
  proof (cases "py_eq_int (item_id t) k")
    case True
    then show ?thesis by (cases i) auto
  next
    case False
    show ?thesis
    proof (cases i)
      case 0
      with False show ?thesis by (simp split: option.splits)
    next
      case (Suc i')
      have "(\<forall>j<Suc i'. \<not> py_eq_int (item_id ((t # ts) ! j)) k) \<longleftrightarrow>
            (\<forall>j<i'. \<not> py_eq_int (item_id (ts ! j)) k)"
        using False by (auto simp: less_Suc_eq_0_disj)
      with False Suc Cons.IH [of i'] show ?thesis by (auto split: option.splits)
    qed
  qed
qed

lemma find_first_None:
  "find_first k ts = None \<longleftrightarrow> (\<forall>t\<in>set ts. \<not> py_eq_int (item_id t) k)"
  by (induction ts) (auto split: option.splits)

lemma ex_find_first:
  "(\<exists>t\<in>set ts. py_eq_int (item_id t) k) \<Longrightarrow> \<exists>i. find_first k ts = Some i"
  using find_first_None [of k ts] by (cases "find_first k ts") auto

lemma complete_todo_found:
  assumes "find_first k (todos m) = Some i"
  shows "complete_todo k m =
     (True, m\<lparr>todos := (todos m)[i := (todos m ! i)\<lparr>completed := PBool True\<rparr>],
              content := Json (PList (map to_dict
                 ((todos m)[i := (todos m ! i)\<lparr>completed := PBool True\<rparr>]))),
              saves := Suc (saves m)\<rparr>)"
  using assms by (simp add: complete_todo_def save_todos_def)

lemma edit_todo_found:
  assumes "find_first k (todos m) = Some i"
  shows "edit_todo k d m =
     (True, m\<lparr>todos := (todos m)[i := (todos m ! i)\<lparr>description := PStr d\<rparr>],
              content := Json (PList (map to_dict
                 ((todos m)[i := (todos m ! i)\<lparr>description := PStr d\<rparr>]))),
              saves := Suc (saves m)\<rparr>)"
  using assms by (simp add: edit_todo_def save_todos_def)

lemma ids_update_completed:
  "map item_id (ts[i := (ts ! i)\<lparr>completed := c\<rparr>]) = map item_id ts"
  by (cases "i < length ts") (simp_all add: map_update list_update_same_conv list_update_beyond)

lemma ids_update_description:
  "map item_id (ts[i := (ts ! i)\<lparr>description := d\<rparr>]) = map item_id ts"
  by (cases "i < length ts") (simp_all add: map_update list_update_same_conv list_update_beyond)

section \<open>Clearing completed records\<close>

lemma clear_completed_eq:
  "clear_completed m =
     (int (length (filter (\<lambda>t. truthy (completed t)) (todos m))),
      if filter (\<lambda>t. truthy (completed t)) (todos m) = [] then m
      else m\<lparr>todos := filter (\<lambda>t. \<not> truthy (completed t)) (todos m),
              content := Json (PList (map to_dict
                 (filter (\<lambda>t. \<not> truthy (completed t)) (todos m)))),
              saves := Suc (saves m)\<rparr>)"
proof -
  let ?keep = "filter (\<lambda>t. \<not> truthy (completed t)) (todos m)"
  let ?gone = "filter (\<lambda>t. truthy (completed t)) (todos m)"
  have cnt: "length ?gone + length ?keep = length (todos m)"
    by (rule sum_length_filter_compl)
  show ?thesis
  proof (cases "?gone = []")
    case True
    then have "?keep = todos m" by (simp add: filter_empty_conv filter_id_conv)
    with True show ?thesis by (simp add: clear_completed_def Let_def)
  next
    case False
    then have "0 < length ?gone" by simp
    with cnt have less: "length ?keep < length (todos m)" by linarith
    from cnt have "int (length (todos m)) - int (length ?keep) = int (length ?gone)" by linarith
    with False less show ?thesis
      by (simp add: clear_completed_def Let_def save_todos_def)
  qed
qed

lemma todos_clear_completed:
  "todos (snd (clear_completed m)) = filter (\<lambda>t. \<not> truthy (completed t)) (todos m)"
  by (simp add: clear_completed_eq filter_empty_conv filter_id_conv)

section \<open>Sequences of calls\<close>

lemma run_Add:
  "run (Add d now # cs) m =
     (case add_todo d now m of
        Inl e \<Rightarrow> Inl e
      | Inr (t, m') \<Rightarrow>
          (case run cs m' of Inl e \<Rightarrow> Inl e | Inr (rs, m'') \<Rightarrow> Inr (Item t # rs, m'')))"
  by (simp split: sum.splits prod.splits)

lemma run_adds:
  assumes "map item_id (todos m) = map PInt [1..k]" and "0 \<le> k"
  shows "\<exists>ts m'. run (map (\<lambda>(d, now). Add d now) dts) m = Inr (map Item ts, m') \<and>
           todos m' = todos m @ ts \<and>
           map item_id ts = map PInt [k + 1..k + int (length dts)] \<and>
           map description ts = map (\<lambda>(d, now). PStr d) dts"
  using assms
proof (induction dts arbitrary: m k)
  case Nil
  show ?case by simp
next
  case (Cons p dts)
  obtain d now where p: "p = (d, now)" by (cases p)
  define new where "new = \<lparr>item_id = PInt (k + 1), description = PStr d,
      completed = PBool False, created_at = PStr now\<rparr>"
  define m1 where "m1 = m\<lparr>todos := todos m @ [new],
      content := Json (PList (map to_dict (todos m @ [new]))), saves := Suc (saves m)\<rparr>"
  have add: "add_todo d now m = Inr (new, m1)"
    using add_todo_PInt [OF Cons.prems(1), of d now] next_after_upto [OF Cons.prems(2)]
    by (simp add: new_def m1_def)
  have "[1..k + 1] = [1..k] @ [k + 1]"
    using Cons.prems(2) upto_rec2 [of 1 "k + 1"] by simp
  then have ids1: "map item_id (todos m1) = map PInt [1..k + 1]"
    using Cons.prems(1) by (simp add: m1_def new_def)
  from Cons.IH [OF ids1] Cons.prems(2)
  obtain ts m' where rest: "run (map (\<lambda>(d, now). Add d now) dts) m1 = Inr (map Item ts, m')"
    "todos m' = todos m1 @ ts"
    "map item_id ts = map PInt [k + 1 + 1..k + 1 + int (length dts)]"
    "map description ts = map (\<lambda>(d, now). PStr d) dts"
    by auto
  have le: "k + 1 \<le> k + 1 + int (length dts)" by simp
  have eq: "k + int (length (p # dts)) = k + 1 + int (length dts)" by simp
  have "[k + 1..k + int (length (p # dts))] = (k + 1) # [k + 1 + 1..k + 1 + int (length dts)]"
    unfolding eq by (rule upto_rec1 [OF le])
  then have "map item_id (new # ts) = map PInt [k + 1..k + int (length (p # dts))]"
    using rest(3) by (simp add: new_def)
  moreover have "run (map (\<lambda>(d, now). Add d now) (p # dts)) m = Inr (map Item (new # ts), m')"
    using add rest(1) by (simp add: p run_Add del: run.simps)
  moreover have "todos m' = todos m @ (new # ts)"
    using rest(2) by (simp add: m1_def)
  moreover have "map description (new # ts) = map (\<lambda>(d, now). PStr d) (p # dts)"
    using rest(4) by (simp add: p new_def)
  ultimately show ?case by blast
qed

text \<open>The four ways in which a call changes the collection.\<close>

lemma call_method_shape:
  assumes "map item_id (todos m) = map PInt ns"
  shows "\<exists>r m'. call_method c m = Inr (r, m') \<and>
     ((\<exists>t. item_id t = PInt ((if ns = [] then 0 else Max (set ns)) + 1) \<and>
           todos m' = todos m @ [t]) \<or>
      map item_id (todos m') = map item_id (todos m) \<or>
      (\<exists>i. todos m' = take i (todos m) @ drop (Suc i) (todos m)) \<or>
      (\<exists>P. todos m' = filter P (todos m)))"
proof (cases c)
  case (Add d now)
  then show ?thesis using add_todo_PInt [OF assms, of d now] by simp
next
  case (Complete k)
  then show ?thesis
    by (cases "find_first k (todos m)")
      (simp_all add: complete_todo_def save_todos_def ids_update_completed)
next
  case (Remove k)
  then show ?thesis
    by (cases "find_first k (todos m)") (auto simp: remove_todo_def save_todos_def)
next
  case (Edit k d)
  then show ?thesis
    by (cases "find_first k (todos m)")
      (simp_all add: edit_todo_def save_todos_def ids_update_description)
next
  case ClearCompleted
  have "todos (snd (clear_completed m)) = filter (\<lambda>t. \<not> truthy (completed t)) (todos m)"
    by (rule todos_clear_completed)
  then have "\<exists>P. todos (snd (clear_completed m)) = filter P (todos m)"
    by (rule exI [where x = "\<lambda>t. \<not> truthy (completed t)"])
  with ClearCompleted show ?thesis by (cases "clear_completed m") simp
qed

lemma distinct_remove_nth:
  assumes "distinct xs"
  shows "distinct (take i xs @ drop (Suc i) xs)"
proof -
  from assms have "distinct (take i xs @ drop i xs)" by simp
  then have "set (take i xs) \<inter> set (drop i xs) = {}" by (simp only: distinct_append)
  moreover have "set (drop (Suc i) xs) \<subseteq> set (drop i xs)"
    by (rule set_drop_subset_set_drop) simp
  ultimately have "set (take i xs) \<inter> set (drop (Suc i) xs) = {}" by blast
  with assms show ?thesis by simp
qed

lemma set_remove_nth: "set (take i xs @ drop (Suc i) xs) \<subseteq> set xs"
  using set_take_subset [of i xs] set_drop_subset [of "Suc i" xs] by auto

lemma sorted_wrt_remove_nth:
  assumes "sorted_wrt P xs"
  shows "sorted_wrt P (take i xs @ drop (Suc i) xs)"
proof -
  from assms have "sorted_wrt P (take i xs @ drop i xs)" by simp
  then have cross: "\<forall>x\<in>set (take i xs). \<forall>y\<in>set (drop i xs). P x y"
    unfolding sorted_wrt_append by blast
  have "set (drop (Suc i) xs) \<subseteq> set (drop i xs)"
    by (rule set_drop_subset_set_drop) simp
  with cross have "\<forall>x\<in>set (take i xs). \<forall>y\<in>set (drop (Suc i) xs). P x y" by blast
  with assms show ?thesis by (simp add: sorted_wrt_append)
qed

lemma call_method_distinct:
  assumes "distinct_int_ids (todos m)"
  shows "\<exists>r m'. call_method c m = Inr (r, m') \<and> distinct_int_ids (todos m')"
proof -
  from assms have ints: "\<forall>v\<in>set (map item_id (todos m)). is_int v"
    and dist: "distinct (map item_id (todos m))"
    by (simp_all add: distinct_int_ids_def)
  from ints obtain ns where ns: "map item_id (todos m) = map PInt ns"
    using ints_as_list by blast
  from call_method_shape [OF ns, of c] obtain r m' where
    call: "call_method c m = Inr (r, m')" and
    shape: "(\<exists>t. item_id t = PInt ((if ns = [] then 0 else Max (set ns)) + 1) \<and>
           todos m' = todos m @ [t]) \<or>
      map item_id (todos m') = map item_id (todos m) \<or>
      (\<exists>i. todos m' = take i (todos m) @ drop (Suc i) (todos m)) \<or>
      (\<exists>P. todos m' = filter P (todos m))"
    by blast
  from shape have "distinct_int_ids (todos m')"
  proof (elim disjE exE conjE)
    fix t
    assume t: "item_id t = PInt ((if ns = [] then 0 else Max (set ns)) + 1)"
      and m': "todos m' = todos m @ [t]"
    have "item_id t \<notin> set (map PInt ns)"
      using Max_succ_fresh [of ns] by (auto simp: t)
    then have fresh: "item_id t \<notin> set (map item_id (todos m))"
      unfolding ns .
    have "is_int (item_id t)" by (simp add: t)
    with ints have "\<forall>x\<in>set (todos m'). is_int (item_id x)"
      by (simp add: m')
    moreover from dist fresh have "distinct (map item_id (todos m'))"
      by (simp add: m')
    ultimately show ?thesis
      by (simp add: distinct_int_ids_def)
  next
    assume same: "map item_id (todos m') = map item_id (todos m)"
    have "\<forall>v\<in>set (map item_id (todos m')). is_int v"
      using ints by (simp only: same)
    then have "\<forall>t\<in>set (todos m'). is_int (item_id t)" by simp
    moreover have "distinct (map item_id (todos m'))"
      using dist by (simp only: same)
    ultimately show ?thesis
      by (simp add: distinct_int_ids_def)
  next
    fix i
    assume m': "todos m' = take i (todos m) @ drop (Suc i) (todos m)"
    have "map item_id (todos m') =
        take i (map item_id (todos m)) @ drop (Suc i) (map item_id (todos m))"
      by (simp add: m' take_map drop_map)
    with dist have "distinct (map item_id (todos m'))"
      by (simp only: distinct_remove_nth)
    moreover have "set (todos m') \<subseteq> set (todos m)"
      unfolding m' by (rule set_remove_nth)
    ultimately show ?thesis
      using ints by (auto simp: distinct_int_ids_def)
  next
    fix P
    assume m': "todos m' = filter P (todos m)"
    with dist ints show ?thesis
      by (simp add: distinct_int_ids_def distinct_map_filter)
  qed
  with call show ?thesis by blast
qed

lemma run_distinct:
  assumes "distinct_int_ids (todos m)"
  shows "\<exists>rs m'. run cs m = Inr (rs, m') \<and> distinct_int_ids (todos m')"
  using assms
proof (induction cs arbitrary: m)
  case Nil
  then show ?case by simp
next
  case (Cons c cs)
  from call_method_distinct [OF Cons.prems, of c] obtain r m1 where
    c: "call_method c m = Inr (r, m1)" and m1: "distinct_int_ids (todos m1)"
    by blast
  from Cons.IH [OF m1] obtain rs m' where "run cs m1 = Inr (rs, m')" "distinct_int_ids (todos m')"
    by blast
  with c show ?case by simp
qed

lemma TodoManager_init_distinct:
  assumes init: "TodoManager_init clock f = Inr m0"
    and f: "f = Absent \<or> f = Malformed \<or>
       (\<exists>items ns. f = Json (PList items) \<and>
          map (\<lambda>x. getitem x ''id'') items = map (\<lambda>n. Inr (PInt n)) ns \<and> distinct ns)"
  shows "distinct_int_ids (todos m0)"
proof -
  from f have "\<exists>ns. map item_id (todos m0) = map PInt ns \<and> distinct ns"
  proof (elim disjE exE conjE)
    assume "f = Absent"
    with init have "map item_id (todos m0) = map PInt [] \<and> distinct ([] :: int list)"
      by (auto simp: TodoManager_init_Absent)
    then show ?thesis by (rule exI)
  next
    assume "f = Malformed"
    with init have "map item_id (todos m0) = map PInt [] \<and> distinct ([] :: int list)"
      by (auto simp: TodoManager_init_Malformed)
    then show ?thesis by (rule exI)
  next
    fix items ns
    assume f: "f = Json (PList items)"
      and ids: "map (\<lambda>x. getitem x ''id'') items = map (\<lambda>n. Inr (PInt n)) ns"
      and ns: "distinct ns"
    show ?thesis
    proof (cases "from_dicts clock 0 items")
      case (Inl e)
      with init f have "map item_id (todos m0) = map PInt [] \<and> distinct ([] :: int list)"
        by (cases e) (auto simp: TodoManager_init_PList)
      then show ?thesis by (rule exI)
    next
      case (Inr ts)
      with init f have m0: "todos m0 = ts" by (auto simp: TodoManager_init_PList)
      from from_dicts_ids [OF Inr] ids
      have "map (\<lambda>t. Inr (item_id t) :: error + pyval) ts = map (\<lambda>n. Inr (PInt n)) ns" by simp
      then have "map Inr (map item_id ts) = (map Inr (map PInt ns) :: (error + pyval) list)"
        by (simp add: comp_def)
      then have "map item_id ts = map PInt ns"
        by (simp only: inj_map_eq_map [OF inj_Inr])
      with ns m0 show ?thesis by blast
    qed
  qed
  then obtain ns where ids: "map item_id (todos m0) = map PInt ns" and ns: "distinct ns"
    by blast
  have "\<forall>v\<in>set (map item_id (todos m0)). is_int v"
    unfolding ids by simp
  then have "\<forall>t\<in>set (todos m0). is_int (item_id t)" by simp
  moreover have "distinct (map item_id (todos m0))"
    unfolding ids using ns by (simp add: distinct_map inj_on_def)
  ultimately show ?thesis by (simp add: distinct_int_ids_def)
qed

lemma call_method_increasing:
  assumes "increasing_int_ids (todos m)"
  shows "\<exists>r m'. call_method c m = Inr (r, m') \<and> increasing_int_ids (todos m')"
proof -
  from assms have ints: "\<forall>v\<in>set (map item_id (todos m)). is_int v"
    and sorted: "sorted_wrt id_less (map item_id (todos m))"
    by (simp_all add: increasing_int_ids_def)
  from ints obtain ns where ns: "map item_id (todos m) = map PInt ns"
    using ints_as_list by blast
  from call_method_shape [OF ns, of c] obtain r m' where
    call: "call_method c m = Inr (r, m')" and
    shape: "(\<exists>t. item_id t = PInt ((if ns = [] then 0 else Max (set ns)) + 1) \<and>
           todos m' = todos m @ [t]) \<or>
      map item_id (todos m') = map item_id (todos m) \<or>
      (\<exists>i. todos m' = take i (todos m) @ drop (Suc i) (todos m)) \<or>
      (\<exists>P. todos m' = filter P (todos m))"
    by blast
  from shape have "increasing_int_ids (todos m')"
  proof (elim disjE exE conjE)
    fix t
    assume t: "item_id t = PInt ((if ns = [] then 0 else Max (set ns)) + 1)"
      and m': "todos m' = todos m @ [t]"
    have "\<forall>v\<in>set (map item_id (todos m)). id_less v (item_id t)"
      unfolding ns t using id_less_Max_succ by blast
    with sorted have "sorted_wrt id_less (map item_id (todos m'))"
      by (simp add: m' sorted_wrt_append)
    moreover have "is_int (item_id t)" by (simp add: t)
    with ints have "\<forall>x\<in>set (todos m'). is_int (item_id x)"
      by (simp add: m')
    ultimately show ?thesis
      by (simp add: increasing_int_ids_def)
  next
    assume same: "map item_id (todos m') = map item_id (todos m)"
    have "\<forall>v\<in>set (map item_id (todos m')). is_int v"
      using ints by (simp only: same)
    then have "\<forall>t\<in>set (todos m'). is_int (item_id t)" by simp
    moreover have "sorted_wrt id_less (map item_id (todos m'))"
      using sorted by (simp only: same)
    ultimately show ?thesis
      by (simp add: increasing_int_ids_def)
  next
    fix i
    assume m': "todos m' = take i (todos m) @ drop (Suc i) (todos m)"
    have "map item_id (todos m') =
        take i (map item_id (todos m)) @ drop (Suc i) (map item_id (todos m))"
      by (simp add: m' take_map drop_map)
    with sorted have "sorted_wrt id_less (map item_id (todos m'))"
      by (simp only: sorted_wrt_remove_nth)
    moreover have "set (todos m') \<subseteq> set (todos m)"
      unfolding m' by (rule set_remove_nth)
    ultimately show ?thesis
      using ints by (auto simp: increasing_int_ids_def)
  next
    fix P
    assume m': "todos m' = filter P (todos m)"
    from sorted have "sorted_wrt (\<lambda>x y. id_less (item_id x) (item_id y)) (todos m)"
      by (simp only: sorted_wrt_map)
    then have "sorted_wrt (\<lambda>x y. id_less (item_id x) (item_id y)) (todos m')"
      unfolding m' by (rule sorted_wrt_filter)
    then have "sorted_wrt id_less (map item_id (todos m'))"
      by (simp only: sorted_wrt_map)
    with ints show ?thesis
      by (simp add: increasing_int_ids_def m')
  qed
  with call show ?thesis by blast
qed

lemma run_increasing:
  assumes "increasing_int_ids (todos m)"
  shows "\<exists>rs m'. run cs m = Inr (rs, m') \<and> increasing_int_ids (todos m')"
  using assms
proof (induction cs arbitrary: m)
  case Nil
  then show ?case by simp
next
  case (Cons c cs)
  from call_method_increasing [OF Cons.prems, of c] obtain r m1 where
    c: "call_method c m = Inr (r, m1)" and m1: "increasing_int_ids (todos m1)"
    by blast
  from Cons.IH [OF m1] obtain rs m' where "run cs m1 = Inr (rs, m')" "increasing_int_ids (todos m')"
    by blast
  with c show ?case by simp
qed

section \<open>Task records\<close>

text \<open>
  C3. A record whose \<open>created_at\<close> is a non-empty string (every ISO-8601 timestamp
  is one) is returned unchanged, in all four fields, by \<open>from_dict\<close> applied to its
  \<open>to_dict\<close>, whatever the clock reads at that time.
\<close>

theorem roundtrip_valid_record:
  assumes "created_at x = PStr s" and "s \<noteq> []"
  shows "from_dict now (to_dict x) = Inr x"
  using assms by (simp add: from_dict_to_dict py_or_def)

text \<open>The record of \<open>test_todo_item_from_dict\<close>, serialised and read back.\<close>

theorem roundtrip_valid_record_witness:
  "created_at \<lparr>item_id = PInt 1, description = PStr ''Teste'', completed = PBool True,
               created_at = PStr ''2024-01-01T10:00:00''\<rparr> = PStr ''2024-01-01T10:00:00'' \<and>
   ''2024-01-01T10:00:00'' \<noteq> [] \<and>
   from_dict ''2025-06-01T12:00:00''
     (to_dict \<lparr>item_id = PInt 1, description = PStr ''Teste'', completed = PBool True,
               created_at = PStr ''2024-01-01T10:00:00''\<rparr>)
   = Inr \<lparr>item_id = PInt 1, description = PStr ''Teste'', completed = PBool True,
          created_at = PStr ''2024-01-01T10:00:00''\<rparr>"
  using roundtrip_valid_record [where s = "''2024-01-01T10:00:00''"
      and now = "''2025-06-01T12:00:00''"
      and x = "\<lparr>item_id = PInt 1, description = PStr ''Teste'', completed = PBool True,
               created_at = PStr ''2024-01-01T10:00:00''\<rparr>"]
  by simp

text \<open>
  C8, as the code has it. \<open>from_dict\<close> applied to a dictionary fails exactly when
  one of the four keys is absent, and the failure is \<open>KeyError\<close>. The values are
  not inspected: when the four keys are present the result is the record of the four
  values stored under them, except that a \<open>created_at\<close> that tests false is replaced
  by the reading of the clock.
\<close>

theorem from_dict_fails_iff_key_absent:
  "((\<exists>e. from_dict now (PDict kvs) = Inl e) \<longleftrightarrow> \<not> has_keys kvs) \<and>
   (\<not> has_keys kvs \<longrightarrow> from_dict now (PDict kvs) = Inl KeyError) \<and>
   (map_of kvs ''id'' = Some i \<and> map_of kvs ''description'' = Some d \<and>
    map_of kvs ''completed'' = Some c \<and> map_of kvs ''created_at'' = Some t \<longrightarrow>
      from_dict now (PDict kvs) =
        Inr \<lparr>item_id = i, description = d, completed = c,
             created_at = (if truthy t then t else PStr now)\<rparr>)"
  by (auto simp: from_dict_PDict has_keys_def TodoItem_init_def py_or_def)

text \<open>A dictionary without \<open>created_at\<close>, and the dictionary of the test suite.\<close>

theorem from_dict_fails_iff_key_absent_witness:
  "\<not> has_keys [(''id'', PInt 1), (''description'', PStr ''Teste''), (''completed'', PBool True)] \<and>
   from_dict ''2025-06-01T12:00:00''
     (PDict [(''id'', PInt 1), (''description'', PStr ''Teste''), (''completed'', PBool True)])
     = Inl KeyError \<and>
   map_of [(''id'', PInt 1), (''description'', PStr ''Teste''), (''completed'', PBool True),
           (''created_at'', PStr ''2024-01-01T10:00:00'')] ''created_at'' =
     Some (PStr ''2024-01-01T10:00:00'') \<and>
   from_dict ''2025-06-01T12:00:00''
     (PDict [(''id'', PInt 1), (''description'', PStr ''Teste''), (''completed'', PBool True),
             (''created_at'', PStr ''2024-01-01T10:00:00'')])
     = Inr \<lparr>item_id = PInt 1, description = PStr ''Teste'', completed = PBool True,
            created_at = PStr ''2024-01-01T10:00:00''\<rparr>"
  (is "?lacks \<and> ?fails \<and> ?stored \<and> ?reads")
proof -
  have lacks: ?lacks by (simp add: has_keys_def)
  have stored: "map_of [(''id'', PInt 1), (''description'', PStr ''Teste''),
          (''completed'', PBool True), (''created_at'', PStr ''2024-01-01T10:00:00'')] ''id'' =
        Some (PInt 1) \<and>
      map_of [(''id'', PInt 1), (''description'', PStr ''Teste''),
          (''completed'', PBool True), (''created_at'', PStr ''2024-01-01T10:00:00'')]
        ''description'' = Some (PStr ''Teste'') \<and>
      map_of [(''id'', PInt 1), (''description'', PStr ''Teste''),
          (''completed'', PBool True), (''created_at'', PStr ''2024-01-01T10:00:00'')]
        ''completed'' = Some (PBool True) \<and>
      map_of [(''id'', PInt 1), (''description'', PStr ''Teste''),
          (''completed'', PBool True), (''created_at'', PStr ''2024-01-01T10:00:00'')]
        ''created_at'' = Some (PStr ''2024-01-01T10:00:00'')"
    by simp
  have ?fails
    by (rule from_dict_fails_iff_key_absent [THEN conjunct2, THEN conjunct1, rule_format])
      (rule lacks)
  moreover have ?reads
    using from_dict_fails_iff_key_absent [THEN conjunct2, THEN conjunct2, rule_format, OF stored,
        of "''2025-06-01T12:00:00''"]
    by simp
  ultimately show ?thesis using lacks stored by blast
qed

text \<open>
  C8 as stated fails: a dictionary in which no value has the type of its field is
  deserialised without an error.
\<close>

theorem from_dict_accepts_any_shape:
  "\<not> is_int (PStr ''abc'') \<and>
   from_dict ''2025-06-01T12:00:00''
     (PDict [(''id'', PStr ''abc''), (''description'', PInt 5), (''completed'', PNone),
             (''created_at'', PList [PInt 1])])
   = Inr \<lparr>item_id = PStr ''abc'', description = PInt 5, completed = PNone,
          created_at = PList [PInt 1]\<rparr>"
  by (simp add: from_dict_def TodoItem_init_def py_or_def)

text \<open>
  C10. With a clock reading \<open>now\<close> (never the empty string), a record constructed
  with \<open>created_at = ""\<close> gets \<open>now\<close> as its \<open>created_at\<close>; so does the record
  deserialised from a dictionary whose \<open>created_at\<close> is the empty string, which is
  therefore not the value stored in the dictionary; and a record whose \<open>created_at\<close>
  is the empty string is not returned by \<open>from_dict\<close> applied to its \<open>to_dict\<close>.
\<close>

theorem empty_created_at_replaced:
  assumes "now \<noteq> []"
    and "map_of kvs ''id'' = Some i" and "map_of kvs ''description'' = Some d"
    and "map_of kvs ''completed'' = Some c" and "map_of kvs ''created_at'' = Some (PStr [])"
  shows "TodoItem_init now i d c (PStr []) =
           \<lparr>item_id = i, description = d, completed = c, created_at = PStr now\<rparr> \<and>
         from_dict now (PDict kvs) =
           Inr \<lparr>item_id = i, description = d, completed = c, created_at = PStr now\<rparr> \<and>
         Some (created_at \<lparr>item_id = i, description = d, completed = c, created_at = PStr now\<rparr>) \<noteq>
           map_of kvs ''created_at'' \<and>
         from_dict now (to_dict \<lparr>item_id = i, description = d, completed = c,
                                  created_at = PStr []\<rparr>) \<noteq>
           Inr \<lparr>item_id = i, description = d, completed = c, created_at = PStr []\<rparr>"
  using assms by (simp add: from_dict_def to_dict_def TodoItem_init_def py_or_def)

theorem empty_created_at_replaced_witness:
  "''2025-06-01T12:00:00'' \<noteq> [] \<and>
   map_of [(''id'', PInt 1), (''description'', PStr ''Teste''), (''completed'', PBool False),
           (''created_at'', PStr [])] ''created_at'' = Some (PStr []) \<and>
   from_dict ''2025-06-01T12:00:00''
     (PDict [(''id'', PInt 1), (''description'', PStr ''Teste''), (''completed'', PBool False),
             (''created_at'', PStr [])]) =
     Inr \<lparr>item_id = PInt 1, description = PStr ''Teste'', completed = PBool False,
          created_at = PStr ''2025-06-01T12:00:00''\<rparr>"
  using empty_created_at_replaced [where now = "''2025-06-01T12:00:00''" and i = "PInt 1"
      and d = "PStr ''Teste''" and c = "PBool False"
      and kvs = "[(''id'', PInt 1), (''description'', PStr ''Teste''),
          (''completed'', PBool False), (''created_at'', PStr [])]"]
  by simp

section \<open>Construction of a manager\<close>

text \<open>
  C2, as the code has it. Construction succeeds with an empty collection when the
  file is missing, when \<open>json.load\<close> rejects it, and when it holds a list of
  dictionaries one of which lacks a key that \<open>from_dict\<close> reads. No record is
  skipped and no value is inspected: a list of dictionaries that all have the four
  keys is loaded whole, one record for each dictionary, whatever the values are.
\<close>

theorem load_falls_back_to_empty:
  "(f = Absent \<or> f = Malformed \<or>
      (\<exists>items. f = Json (PList items) \<and> (\<forall>x\<in>set items. \<exists>kvs. x = PDict kvs) \<and>
         (\<exists>kvs. PDict kvs \<in> set items \<and> \<not> has_keys kvs)) \<longrightarrow>
      TodoManager_init clock f = Inr \<lparr>todos = [], content = f, saves = 0\<rparr>) \<and>
   ((\<forall>x\<in>set items. \<exists>kvs. x = PDict kvs \<and> has_keys kvs) \<longrightarrow>
      (\<exists>ts. TodoManager_init clock (Json (PList items)) =
               Inr \<lparr>todos = ts, content = Json (PList items), saves = 0\<rparr> \<and>
            length ts = length items \<and>
            (\<forall>j<length items. from_dict (clock j) (items ! j) = Inr (ts ! j))))"
proof (intro conjI impI)
  assume "f = Absent \<or> f = Malformed \<or>
      (\<exists>items. f = Json (PList items) \<and> (\<forall>x\<in>set items. \<exists>kvs. x = PDict kvs) \<and>
         (\<exists>kvs. PDict kvs \<in> set items \<and> \<not> has_keys kvs))"
  then show "TodoManager_init clock f = Inr \<lparr>todos = [], content = f, saves = 0\<rparr>"
  proof (elim disjE exE conjE)
    assume "f = Absent"
    then show ?thesis by (simp add: TodoManager_init_Absent)
  next
    assume "f = Malformed"
    then show ?thesis by (simp add: TodoManager_init_Malformed)
  next
    fix its kvs
    assume f: "f = Json (PList its)" and dicts: "\<forall>x\<in>set its. \<exists>kvs. x = PDict kvs"
      and "PDict kvs \<in> set its" "\<not> has_keys kvs"
    then have "from_dicts clock 0 its = Inl KeyError"
      by (intro from_dicts_KeyError) blast+
    then show ?thesis by (simp add: f TodoManager_init_PList)
  qed
next
  assume "\<forall>x\<in>set items. \<exists>kvs. x = PDict kvs \<and> has_keys kvs"
  from from_dicts_all [OF this, of clock 0] obtain ts where
    "from_dicts clock 0 items = Inr ts" "length ts = length items"
    "\<forall>j<length items. from_dict (clock j) (items ! j) = Inr (ts ! j)"
    by auto
  then show "\<exists>ts. TodoManager_init clock (Json (PList items)) =
               Inr \<lparr>todos = ts, content = Json (PList items), saves = 0\<rparr> \<and>
            length ts = length items \<and>
            (\<forall>j<length items. from_dict (clock j) (items ! j) = Inr (ts ! j))"
    by (simp add: TodoManager_init_PList)
qed

text \<open>
  A file whose second record has two keys only, and a file holding the record of the
  test suite.
\<close>

theorem load_falls_back_to_empty_witness:
  "PDict [(''id'', PInt 2), (''description'', PStr ''Outra'')] \<in>
     set [PDict [(''id'', PInt 1), (''description'', PStr ''Teste''),
                    (''completed'', PBool True), (''created_at'', PStr ''2024-01-01T10:00:00'')],
          PDict [(''id'', PInt 2), (''description'', PStr ''Outra'')]] \<and>
   \<not> has_keys [(''id'', PInt 2), (''description'', PStr ''Outra'')] \<and>
   TodoManager_init (\<lambda>n. ''2025-06-01T12:00:00'')
     (Json (PList [PDict [(''id'', PInt 1), (''description'', PStr ''Teste''),
                    (''completed'', PBool True), (''created_at'', PStr ''2024-01-01T10:00:00'')],
                   PDict [(''id'', PInt 2), (''description'', PStr ''Outra'')]])) =
     Inr \<lparr>todos = [],
          content = Json (PList [PDict [(''id'', PInt 1), (''description'', PStr ''Teste''),
                    (''completed'', PBool True), (''created_at'', PStr ''2024-01-01T10:00:00'')],
                   PDict [(''id'', PInt 2), (''description'', PStr ''Outra'')]]),
          saves = 0\<rparr> \<and>
   has_keys [(''id'', PInt 1), (''description'', PStr ''Teste''),
             (''completed'', PBool True), (''created_at'', PStr ''2024-01-01T10:00:00'')] \<and>
   TodoManager_init (\<lambda>n. ''2025-06-01T12:00:00'')
       (Json (PList [PDict [(''id'', PInt 1), (''description'', PStr ''Teste''),
                    (''completed'', PBool True), (''created_at'', PStr ''2024-01-01T10:00:00'')]])) =
     Inr \<lparr>todos = [\<lparr>item_id = PInt 1, description = PStr ''Teste'', completed = PBool True,
                     created_at = PStr ''2024-01-01T10:00:00''\<rparr>],
          content = Json (PList [PDict [(''id'', PInt 1), (''description'', PStr ''Teste''),
                    (''completed'', PBool True), (''created_at'', PStr ''2024-01-01T10:00:00'')]]),
          saves = 0\<rparr>"
  (is "?member \<and> ?lacks \<and> ?empty \<and> ?complete \<and> ?loaded")
proof -
  have member: ?member by simp
  have lacks: ?lacks by (simp add: has_keys_def)
  have complete: ?complete by (simp add: has_keys_def)
  note fallback = load_falls_back_to_empty [THEN conjunct1, rule_format]
  note accepted = load_falls_back_to_empty [THEN conjunct2, rule_format]
  have ?empty
    by (rule fallback) (use member lacks in auto)
  moreover have "\<exists>ts. TodoManager_init (\<lambda>n. ''2025-06-01T12:00:00'')
       (Json (PList [PDict [(''id'', PInt 1), (''description'', PStr ''Teste''),
                    (''completed'', PBool True), (''created_at'', PStr ''2024-01-01T10:00:00'')]])) =
       Inr \<lparr>todos = ts,
          content = Json (PList [PDict [(''id'', PInt 1), (''description'', PStr ''Teste''),
                    (''completed'', PBool True), (''created_at'', PStr ''2024-01-01T10:00:00'')]]),
          saves = 0\<rparr> \<and>
       length ts = length [PDict [(''id'', PInt 1), (''description'', PStr ''Teste''),
                    (''completed'', PBool True), (''created_at'', PStr ''2024-01-01T10:00:00'')]] \<and>
       (\<forall>j<length [PDict [(''id'', PInt 1), (''description'', PStr ''Teste''),
                    (''completed'', PBool True), (''created_at'', PStr ''2024-01-01T10:00:00'')]].
          from_dict ''2025-06-01T12:00:00''
            ([PDict [(''id'', PInt 1), (''description'', PStr ''Teste''),
                    (''completed'', PBool True), (''created_at'', PStr ''2024-01-01T10:00:00'')]] ! j) =
          Inr (ts ! j))"
    by (rule accepted) (use complete in auto)
  then have ?loaded
    by (auto simp: length_Suc_conv from_dict_def TodoItem_init_def py_or_def)
  ultimately show ?thesis using member lacks complete by blast
qed

text \<open>
  C2 as stated fails: a record in which no value has the type of its field is loaded,
  and the collection is not empty.
\<close>

theorem load_keeps_wrong_shaped_record:
  "TodoManager_init (\<lambda>n. ''2025-06-01T12:00:00'')
     (Json (PList [PDict [(''id'', PStr ''abc''), (''description'', PInt 5),
                          (''completed'', PNone), (''created_at'', PStr ''yesterday'')]])) =
   Inr \<lparr>todos = [\<lparr>item_id = PStr ''abc'', description = PInt 5, completed = PNone,
                   created_at = PStr ''yesterday''\<rparr>],
        content = Json (PList [PDict [(''id'', PStr ''abc''), (''description'', PInt 5),
                          (''completed'', PNone), (''created_at'', PStr ''yesterday'')]]),
        saves = 0\<rparr>"
  by (simp add: TodoManager_init_def load_todos_def read_todos_def json_load_def from_dict_def
      TodoItem_init_def py_or_def)

text \<open>
  An element of the stored list that is not a dictionary raises \<open>TypeError\<close>,
  which \<open>load_todos\<close> does not catch.
\<close>

lemma load_non_object_raises:
  "TodoManager_init (\<lambda>n. ''2025-06-01T12:00:00'') (Json (PList [PInt 5])) = Inl TypeError"
  by (simp add: TodoManager_init_def load_todos_def read_todos_def json_load_def from_dict_def)

section \<open>Adding\<close>

text \<open>
  C4. In a collection whose ids are the integers \<open>ns\<close>, \<open>add_todo\<close> returns the
  record with id \<open>(maximum of ns, or 0 when there is none) + 1\<close>, the description
  given, \<open>completed = False\<close> and the reading of the clock; the collection is the
  old one followed by that record, and it has been written to the file by one more
  call of \<open>save_todos\<close>. Calls of \<open>add_todo\<close> on an empty collection return, in
  the order of the calls, records with ids 1, 2, 3 and so on.
\<close>

theorem add_todo_result:
  "(map item_id (todos m) = map PInt ns \<longrightarrow>
      (\<exists>new. new = \<lparr>item_id = PInt ((if ns = [] then 0 else Max (set ns)) + 1),
                     description = PStr d, completed = PBool False, created_at = PStr now\<rparr> \<and>
         add_todo d now m =
           Inr (new, m\<lparr>todos := todos m @ [new],
                       content := Json (PList (map to_dict (todos m @ [new]))),
                       saves := Suc (saves m)\<rparr>))) \<and>
   (todos m = [] \<longrightarrow>
      (\<exists>ts m'. run (map (\<lambda>(d, now). Add d now) dts) m = Inr (map Item ts, m') \<and>
         todos m' = ts \<and>
         map item_id ts = map PInt [1..int (length dts)] \<and>
         map description ts = map (\<lambda>(d, now). PStr d) dts))"
proof (intro conjI impI)
  assume "map item_id (todos m) = map PInt ns"
  from add_todo_PInt [OF this, of d now]
  show "\<exists>new. new = \<lparr>item_id = PInt ((if ns = [] then 0 else Max (set ns)) + 1),
                     description = PStr d, completed = PBool False, created_at = PStr now\<rparr> \<and>
         add_todo d now m =
           Inr (new, m\<lparr>todos := todos m @ [new],
                       content := Json (PList (map to_dict (todos m @ [new]))),
                       saves := Suc (saves m)\<rparr>)"
    by simp
next
  assume empty: "todos m = []"
  then have "map item_id (todos m) = map PInt [1..0]" by simp
  from run_adds [OF this, of dts] empty
  show "\<exists>ts m'. run (map (\<lambda>(d, now). Add d now) dts) m = Inr (map Item ts, m') \<and>
         todos m' = ts \<and>
         map item_id ts = map PInt [1..int (length dts)] \<and>
         map description ts = map (\<lambda>(d, now). PStr d) dts"
    by simp
qed

text \<open>A collection with ids 1 and 3, and two calls on an empty collection.\<close>

theorem add_todo_result_witness:
  "map item_id (todos
      \<lparr>todos = [\<lparr>item_id = PInt 1, description = PStr ''Tarefa 1'', completed = PBool True,
                  created_at = PStr ''2024-01-01T10:00:00''\<rparr>,
                \<lparr>item_id = PInt 3, description = PStr ''Tarefa 3'', completed = PBool False,
                  created_at = PStr ''2024-01-01T10:05:00''\<rparr>],
       content = Malformed, saves = 0\<rparr>) = map PInt [1, 3] \<and>
   add_todo ''Tarefa 4'' ''2024-01-01T10:10:00''
      \<lparr>todos = [\<lparr>item_id = PInt 1, description = PStr ''Tarefa 1'', completed = PBool True,
                  created_at = PStr ''2024-01-01T10:00:00''\<rparr>,
                \<lparr>item_id = PInt 3, description = PStr ''Tarefa 3'', completed = PBool False,
                  created_at = PStr ''2024-01-01T10:05:00''\<rparr>],
       content = Malformed, saves = 0\<rparr> =
     Inr (\<lparr>item_id = PInt 4, description = PStr ''Tarefa 4'', completed = PBool False,
           created_at = PStr ''2024-01-01T10:10:00''\<rparr>,
          \<lparr>todos = [\<lparr>item_id = PInt 1, description = PStr ''Tarefa 1'', completed = PBool True,
                      created_at = PStr ''2024-01-01T10:00:00''\<rparr>,
                    \<lparr>item_id = PInt 3, description = PStr ''Tarefa 3'', completed = PBool False,
                      created_at = PStr ''2024-01-01T10:05:00''\<rparr>,
                    \<lparr>item_id = PInt 4, description = PStr ''Tarefa 4'', completed = PBool False,
                      created_at = PStr ''2024-01-01T10:10:00''\<rparr>],
           content = Json (PList
             [PDict [(''id'', PInt 1), (''description'', PStr ''Tarefa 1''),
                     (''completed'', PBool True), (''created_at'', PStr ''2024-01-01T10:00:00'')],
              PDict [(''id'', PInt 3), (''description'', PStr ''Tarefa 3''),
                     (''completed'', PBool False), (''created_at'', PStr ''2024-01-01T10:05:00'')],
              PDict [(''id'', PInt 4), (''description'', PStr ''Tarefa 4''),
                     (''completed'', PBool False), (''created_at'', PStr ''2024-01-01T10:10:00'')]]),
           saves = 1\<rparr>) \<and>
   todos \<lparr>todos = [], content = Absent, saves = 0\<rparr> = [] \<and>
   (\<exists>ts m'. run [Add ''Buy milk'' ''2024-01-01T10:00:00'', Add ''Walk dog'' ''2024-01-01T10:05:00'']
                \<lparr>todos = [], content = Absent, saves = 0\<rparr> = Inr (map Item ts, m') \<and>
      todos m' = ts \<and> map item_id ts = [PInt 1, PInt 2] \<and>
      map description ts = [PStr ''Buy milk'', PStr ''Walk dog''])"
  (is "?ids \<and> ?added \<and> ?empty \<and> ?successive")
proof -
  have ids: ?ids by simp
  have empty: ?empty by simp
  have ?added
    using add_todo_result [THEN conjunct1, rule_format, OF ids,
        of "''Tarefa 4''" "''2024-01-01T10:10:00''"]
    by (simp add: to_dict_def)
  moreover have "[1..2] = [1, 2 :: int]" by (simp add: upto_rec1)
  then have ?successive
    using add_todo_result [THEN conjunct2, rule_format, OF empty,
        of "[(''Buy milk'', ''2024-01-01T10:00:00''), (''Walk dog'', ''2024-01-01T10:05:00'')]"]
    by simp
  ultimately show ?thesis using ids empty by blast
qed

text \<open>With an id that is not a number the call raises \<open>TypeError\<close>.\<close>

lemma add_todo_non_numeric_id:
  "add_todo ''Tarefa'' ''2024-01-01T10:10:00''
     \<lparr>todos = [\<lparr>item_id = PStr ''abc'', description = PStr ''Teste'', completed = PBool False,
                 created_at = PStr ''2024-01-01T10:00:00''\<rparr>],
      content = Absent, saves = 0\<rparr> = Inl TypeError"
  by (simp add: add_todo_def next_id_def)

section \<open>Completing\<close>

text \<open>
  C5. When some record has the id, \<open>complete_todo\<close> returns \<open>True\<close>; the first
  such record has its \<open>completed\<close> set to \<open>True\<close> and nothing else changes in the
  collection, which is written to the file by one more call of \<open>save_todos\<close>. The
  value \<open>completed\<close> had before plays no part, so a record already completed is
  treated alike. When no record has the id the call returns \<open>False\<close> and the
  manager, collection and file, is what it was.
\<close>

theorem complete_todo_result:
  "((\<exists>t\<in>set (todos m). py_eq_int (item_id t) k) \<longrightarrow>
      (\<exists>i<length (todos m).
          py_eq_int (item_id (todos m ! i)) k \<and>
          (\<forall>j<i. \<not> py_eq_int (item_id (todos m ! j)) k) \<and>
          complete_todo k m =
            (True, m\<lparr>todos := (todos m)[i := (todos m ! i)\<lparr>completed := PBool True\<rparr>],
                     content := Json (PList (map to_dict
                        ((todos m)[i := (todos m ! i)\<lparr>completed := PBool True\<rparr>]))),
                     saves := Suc (saves m)\<rparr>))) \<and>
   (\<not> (\<exists>t\<in>set (todos m). py_eq_int (item_id t) k) \<longrightarrow> complete_todo k m = (False, m))"
proof (intro conjI impI)
  assume "\<exists>t\<in>set (todos m). py_eq_int (item_id t) k"
  then obtain i where i: "find_first k (todos m) = Some i"
    using ex_find_first by blast
  then have "i < length (todos m)" "py_eq_int (item_id (todos m ! i)) k"
    "\<forall>j<i. \<not> py_eq_int (item_id (todos m ! j)) k"
    by (simp_all add: find_first_Some)
  with complete_todo_found [OF i] show "\<exists>i<length (todos m).
          py_eq_int (item_id (todos m ! i)) k \<and>
          (\<forall>j<i. \<not> py_eq_int (item_id (todos m ! j)) k) \<and>
          complete_todo k m =
            (True, m\<lparr>todos := (todos m)[i := (todos m ! i)\<lparr>completed := PBool True\<rparr>],
                     content := Json (PList (map to_dict
                        ((todos m)[i := (todos m ! i)\<lparr>completed := PBool True\<rparr>]))),
                     saves := Suc (saves m)\<rparr>)"
    by blast
next
  assume "\<not> (\<exists>t\<in>set (todos m). py_eq_int (item_id t) k)"
  then have "find_first k (todos m) = None" by (simp add: find_first_None)
  then show "complete_todo k m = (False, m)" by (simp add: complete_todo_def)
qed

text \<open>Completing record 2, which is completed already, and an id that is absent.\<close>

theorem complete_todo_result_witness:
  "(\<exists>t\<in>set (todos \<lparr>todos = [\<lparr>item_id = PInt 1, description = PStr ''Tarefa 1'', completed = PBool False,
                 created_at = PStr ''2024-01-01T10:00:00''\<rparr>,
               \<lparr>item_id = PInt 2, description = PStr ''Tarefa 2'', completed = PBool True,
                 created_at = PStr ''2024-01-01T10:05:00''\<rparr>],
      content = Malformed, saves = 0\<rparr>). py_eq_int (item_id t) 2) \<and>
   complete_todo 2 \<lparr>todos = [\<lparr>item_id = PInt 1, description = PStr ''Tarefa 1'', completed = PBool False,
                 created_at = PStr ''2024-01-01T10:00:00''\<rparr>,
               \<lparr>item_id = PInt 2, description = PStr ''Tarefa 2'', completed = PBool True,
                 created_at = PStr ''2024-01-01T10:05:00''\<rparr>],
      content = Malformed, saves = 0\<rparr> =
     (True,
      \<lparr>todos = [\<lparr>item_id = PInt 1, description = PStr ''Tarefa 1'', completed = PBool False,
                  created_at = PStr ''2024-01-01T10:00:00''\<rparr>,
                \<lparr>item_id = PInt 2, description = PStr ''Tarefa 2'', completed = PBool True,
                  created_at = PStr ''2024-01-01T10:05:00''\<rparr>],
       content = Json (PList
         [PDict [(''id'', PInt 1), (''description'', PStr ''Tarefa 1''),
                 (''completed'', PBool False), (''created_at'', PStr ''2024-01-01T10:00:00'')],
          PDict [(''id'', PInt 2), (''description'', PStr ''Tarefa 2''),
                 (''completed'', PBool True), (''created_at'', PStr ''2024-01-01T10:05:00'')]]),
       saves = 1\<rparr>) \<and>
   \<not> (\<exists>t\<in>set (todos \<lparr>todos = [\<lparr>item_id = PInt 1, description = PStr ''Tarefa 1'', completed = PBool False,
                 created_at = PStr ''2024-01-01T10:00:00''\<rparr>,
               \<lparr>item_id = PInt 2, description = PStr ''Tarefa 2'', completed = PBool True,
                 created_at = PStr ''2024-01-01T10:05:00''\<rparr>],
      content = Malformed, saves = 0\<rparr>). py_eq_int (item_id t) 999) \<and>
   complete_todo 999 \<lparr>todos = [\<lparr>item_id = PInt 1, description = PStr ''Tarefa 1'', completed = PBool False,
                 created_at = PStr ''2024-01-01T10:00:00''\<rparr>,
               \<lparr>item_id = PInt 2, description = PStr ''Tarefa 2'', completed = PBool True,
                 created_at = PStr ''2024-01-01T10:05:00''\<rparr>],
      content = Malformed, saves = 0\<rparr> = (False, \<lparr>todos = [\<lparr>item_id = PInt 1, description = PStr ''Tarefa 1'', completed = PBool False,
                 created_at = PStr ''2024-01-01T10:00:00''\<rparr>,
               \<lparr>item_id = PInt 2, description = PStr ''Tarefa 2'', completed = PBool True,
                 created_at = PStr ''2024-01-01T10:05:00''\<rparr>],
      content = Malformed, saves = 0\<rparr>)"
  (is "?found \<and> ?done \<and> ?absent \<and> ?unchanged")
proof -
  let ?m = "\<lparr>todos = [\<lparr>item_id = PInt 1, description = PStr ''Tarefa 1'', completed = PBool False,
                 created_at = PStr ''2024-01-01T10:00:00''\<rparr>,
               \<lparr>item_id = PInt 2, description = PStr ''Tarefa 2'', completed = PBool True,
                 created_at = PStr ''2024-01-01T10:05:00''\<rparr>],
      content = Malformed, saves = 0\<rparr>"
  have found: ?found by simp
  have absent: ?absent by simp
  from complete_todo_result [THEN conjunct1, rule_format, OF found]
  obtain i where i: "i < length (todos ?m)" "py_eq_int (item_id (todos ?m ! i)) 2"
    and result: "complete_todo 2 ?m =
      (True, ?m\<lparr>todos := (todos ?m)[i := (todos ?m ! i)\<lparr>completed := PBool True\<rparr>],
                 content := Json (PList (map to_dict
                    ((todos ?m)[i := (todos ?m ! i)\<lparr>completed := PBool True\<rparr>]))),
                 saves := Suc (saves ?m)\<rparr>)"
    by blast
  from i have "i = 1" by (cases i) auto
  with result have ?done by (simp add: to_dict_def)
  moreover have ?unchanged
    by (rule complete_todo_result [THEN conjunct2, rule_format]) (rule absent)
  ultimately show ?thesis using found absent by blast
qed

section \<open>Editing\<close>

text \<open>
  C7. When some record has the id, \<open>edit_todo\<close> returns \<open>True\<close>; in the new
  collection the first such record has the new description and the id,
  \<open>completed\<close> and \<open>created_at\<close> it had, every other position holds the record
  it held, and the collection is written to the file by one more call of
  \<open>save_todos\<close>. When no record has the id the call returns \<open>False\<close> and the
  manager is what it was.
\<close>

theorem edit_todo_result:
  "((\<exists>t\<in>set (todos m). py_eq_int (item_id t) k) \<longrightarrow>
      (\<exists>i<length (todos m). \<exists>ts'.
          py_eq_int (item_id (todos m ! i)) k \<and>
          (\<forall>j<i. \<not> py_eq_int (item_id (todos m ! j)) k) \<and>
          edit_todo k d m =
            (True, m\<lparr>todos := ts', content := Json (PList (map to_dict ts')),
                     saves := Suc (saves m)\<rparr>) \<and>
          length ts' = length (todos m) \<and>
          ts' ! i = \<lparr>item_id = item_id (todos m ! i), description = PStr d,
                     completed = completed (todos m ! i), created_at = created_at (todos m ! i)\<rparr> \<and>
          (\<forall>j<length (todos m). j \<noteq> i \<longrightarrow> ts' ! j = todos m ! j))) \<and>
   (\<not> (\<exists>t\<in>set (todos m). py_eq_int (item_id t) k) \<longrightarrow> edit_todo k d m = (False, m))"
proof (intro conjI impI)
  assume "\<exists>t\<in>set (todos m). py_eq_int (item_id t) k"
  then obtain i where i: "find_first k (todos m) = Some i"
    using ex_find_first by blast
  then have *: "i < length (todos m)" "py_eq_int (item_id (todos m ! i)) k"
    "\<forall>j<i. \<not> py_eq_int (item_id (todos m ! j)) k"
    by (simp_all add: find_first_Some)
  define ts' where "ts' = (todos m)[i := (todos m ! i)\<lparr>description := PStr d\<rparr>]"
  have "edit_todo k d m =
      (True, m\<lparr>todos := ts', content := Json (PList (map to_dict ts')), saves := Suc (saves m)\<rparr>)"
    unfolding ts'_def by (rule edit_todo_found [OF i])
  moreover have "length ts' = length (todos m)" by (simp add: ts'_def)
  moreover have "ts' ! i = \<lparr>item_id = item_id (todos m ! i), description = PStr d,
      completed = completed (todos m ! i), created_at = created_at (todos m ! i)\<rparr>"
    using * by (simp add: ts'_def)
  moreover have "\<forall>j<length (todos m). j \<noteq> i \<longrightarrow> ts' ! j = todos m ! j"
    by (simp add: ts'_def)
  ultimately show "\<exists>i<length (todos m). \<exists>ts'.
          py_eq_int (item_id (todos m ! i)) k \<and>
          (\<forall>j<i. \<not> py_eq_int (item_id (todos m ! j)) k) \<and>
          edit_todo k d m =
            (True, m\<lparr>todos := ts', content := Json (PList (map to_dict ts')),
                     saves := Suc (saves m)\<rparr>) \<and>
          length ts' = length (todos m) \<and>
          ts' ! i = \<lparr>item_id = item_id (todos m ! i), description = PStr d,
                     completed = completed (todos m ! i), created_at = created_at (todos m ! i)\<rparr> \<and>
          (\<forall>j<length (todos m). j \<noteq> i \<longrightarrow> ts' ! j = todos m ! j)"
    using * by blast
next
  assume "\<not> (\<exists>t\<in>set (todos m). py_eq_int (item_id t) k)"
  then have "find_first k (todos m) = None" by (simp add: find_first_None)
  then show "edit_todo k d m = (False, m)" by (simp add: edit_todo_def)
qed

text \<open>Editing record 2, and an id that is absent.\<close>

theorem edit_todo_result_witness:
  "(\<exists>t\<in>set (todos \<lparr>todos = [\<lparr>item_id = PInt 1, description = PStr ''Tarefa 1'', completed = PBool False,
                 created_at = PStr ''2024-01-01T10:00:00''\<rparr>,
               \<lparr>item_id = PInt 2, description = PStr ''Tarefa 2'', completed = PBool True,
                 created_at = PStr ''2024-01-01T10:05:00''\<rparr>],
      content = Malformed, saves = 0\<rparr>). py_eq_int (item_id t) 2) \<and>
   edit_todo 2 ''Nova'' \<lparr>todos = [\<lparr>item_id = PInt 1, description = PStr ''Tarefa 1'', completed = PBool False,
                 created_at = PStr ''2024-01-01T10:00:00''\<rparr>,
               \<lparr>item_id = PInt 2, description = PStr ''Tarefa 2'', completed = PBool True,
                 created_at = PStr ''2024-01-01T10:05:00''\<rparr>],
      content = Malformed, saves = 0\<rparr> =
     (True,
      \<lparr>todos = [\<lparr>item_id = PInt 1, description = PStr ''Tarefa 1'', completed = PBool False,
                  created_at = PStr ''2024-01-01T10:00:00''\<rparr>,
                \<lparr>item_id = PInt 2, description = PStr ''Nova'', completed = PBool True,
                  created_at = PStr ''2024-01-01T10:05:00''\<rparr>],
       content = Json (PList
         [PDict [(''id'', PInt 1), (''description'', PStr ''Tarefa 1''),
                 (''completed'', PBool False), (''created_at'', PStr ''2024-01-01T10:00:00'')],
          PDict [(''id'', PInt 2), (''description'', PStr ''Nova''),
                 (''completed'', PBool True), (''created_at'', PStr ''2024-01-01T10:05:00'')]]),
       saves = 1\<rparr>) \<and>
   \<not> (\<exists>t\<in>set (todos \<lparr>todos = [\<lparr>item_id = PInt 1, description = PStr ''Tarefa 1'', completed = PBool False,
                 created_at = PStr ''2024-01-01T10:00:00''\<rparr>,
               \<lparr>item_id = PInt 2, description = PStr ''Tarefa 2'', completed = PBool True,
                 created_at = PStr ''2024-01-01T10:05:00''\<rparr>],
      content = Malformed, saves = 0\<rparr>). py_eq_int (item_id t) 999) \<and>
   edit_todo 999 ''Nova'' \<lparr>todos = [\<lparr>item_id = PInt 1, description = PStr ''Tarefa 1'', completed = PBool False,
                 created_at = PStr ''2024-01-01T10:00:00''\<rparr>,
               \<lparr>item_id = PInt 2, description = PStr ''Tarefa 2'', completed = PBool True,
                 created_at = PStr ''2024-01-01T10:05:00''\<rparr>],
      content = Malformed, saves = 0\<rparr> = (False, \<lparr>todos = [\<lparr>item_id = PInt 1, description = PStr ''Tarefa 1'', completed = PBool False,
                 created_at = PStr ''2024-01-01T10:00:00''\<rparr>,
               \<lparr>item_id = PInt 2, description = PStr ''Tarefa 2'', completed = PBool True,
                 created_at = PStr ''2024-01-01T10:05:00''\<rparr>],
      content = Malformed, saves = 0\<rparr>)"
  (is "?found \<and> ?done \<and> ?absent \<and> ?unchanged")
proof -
  let ?m = "\<lparr>todos = [\<lparr>item_id = PInt 1, description = PStr ''Tarefa 1'', completed = PBool False,
                 created_at = PStr ''2024-01-01T10:00:00''\<rparr>,
               \<lparr>item_id = PInt 2, description = PStr ''Tarefa 2'', completed = PBool True,
                 created_at = PStr ''2024-01-01T10:05:00''\<rparr>],
      content = Malformed, saves = 0\<rparr>"
  have found: ?found by simp
  have absent: ?absent by simp
  from edit_todo_result [THEN conjunct1, rule_format, OF found, of "''Nova''"]
  obtain i ts' where i: "i < length (todos ?m)" "py_eq_int (item_id (todos ?m ! i)) 2"
    and result: "edit_todo 2 ''Nova'' ?m =
      (True, ?m\<lparr>todos := ts', content := Json (PList (map to_dict ts')),
                 saves := Suc (saves ?m)\<rparr>)"
    and len: "length ts' = length (todos ?m)"
    and changed: "ts' ! i = \<lparr>item_id = item_id (todos ?m ! i), description = PStr ''Nova'',
        completed = completed (todos ?m ! i), created_at = created_at (todos ?m ! i)\<rparr>"
    and others: "\<forall>j<length (todos ?m). j \<noteq> i \<longrightarrow> ts' ! j = todos ?m ! j"
    by blast
  from i have i1: "i = 1" by (cases i) auto
  from others i1 have "ts' ! 0 = todos ?m ! 0" by simp
  with len changed i1 have "ts' =
      [\<lparr>item_id = PInt 1, description = PStr ''Tarefa 1'', completed = PBool False,
         created_at = PStr ''2024-01-01T10:00:00''\<rparr>,
       \<lparr>item_id = PInt 2, description = PStr ''Nova'', completed = PBool True,
         created_at = PStr ''2024-01-01T10:05:00''\<rparr>]"
    by (auto simp: length_Suc_conv)
  with result have ?done by (simp add: to_dict_def)
  moreover have ?unchanged
    by (rule edit_todo_result [THEN conjunct2, rule_format]) (rule absent)
  ultimately show ?thesis using found absent by blast
qed

section \<open>Clearing completed records\<close>

text \<open>
  C6. \<open>clear_completed\<close> returns the number of records whose \<open>completed\<close> tests
  true; the new collection is the old one without them, the others in their order
  (for flags that are booleans: without the records whose flag is \<open>True\<close>).
  \<open>save_todos\<close> is called once when that number is positive and not at all when
  it is 0, in which case the manager is what it was. A second call right after the
  first returns 0.
\<close>

theorem clear_completed_result:
  "clear_completed m =
     (int (length (filter (\<lambda>t. truthy (completed t)) (todos m))),
      if filter (\<lambda>t. truthy (completed t)) (todos m) = [] then m
      else m\<lparr>todos := filter (\<lambda>t. \<not> truthy (completed t)) (todos m),
              content := Json (PList (map to_dict
                 (filter (\<lambda>t. \<not> truthy (completed t)) (todos m)))),
              saves := Suc (saves m)\<rparr>) \<and>
   todos (snd (clear_completed m)) = filter (\<lambda>t. \<not> truthy (completed t)) (todos m) \<and>
   saves (snd (clear_completed m)) = (if 0 < fst (clear_completed m) then Suc (saves m) else saves m) \<and>
   fst (clear_completed (snd (clear_completed m))) = 0 \<and>
   ((\<forall>t\<in>set (todos m). \<exists>b. completed t = PBool b) \<longrightarrow>
      todos (snd (clear_completed m)) = filter (\<lambda>t. completed t \<noteq> PBool True) (todos m))"
proof -
  have again: "fst (clear_completed (snd (clear_completed m))) = 0"
    by (simp add: clear_completed_eq [of "snd (clear_completed m)"] todos_clear_completed
        filter_empty_conv)
  have count: "saves (snd (clear_completed m)) =
      (if 0 < fst (clear_completed m) then Suc (saves m) else saves m)"
    by (simp add: clear_completed_eq [of m])
  have flags: "(\<forall>t\<in>set (todos m). \<exists>b. completed t = PBool b) \<longrightarrow>
      todos (snd (clear_completed m)) = filter (\<lambda>t. completed t \<noteq> PBool True) (todos m)"
  proof
    assume bools: "\<forall>t\<in>set (todos m). \<exists>b. completed t = PBool b"
    have "filter (\<lambda>t. \<not> truthy (completed t)) (todos m) =
        filter (\<lambda>t. completed t \<noteq> PBool True) (todos m)"
      by (rule filter_cong) (use bools in auto)
    then show "todos (snd (clear_completed m)) =
        filter (\<lambda>t. completed t \<noteq> PBool True) (todos m)"
      by (simp only: todos_clear_completed)
  qed
  from clear_completed_eq [of m] todos_clear_completed [of m] count again flags
  show ?thesis by (intro conjI)
qed

text \<open>The collection of \<open>test_clear_completed\<close>: records 1 and 3 are completed.\<close>

theorem clear_completed_result_witness:
  "clear_completed \<lparr>todos = [\<lparr>item_id = PInt 1, description = PStr ''Tarefa 1'', completed = PBool True,
                 created_at = PStr ''2024-01-01T10:00:00''\<rparr>,
               \<lparr>item_id = PInt 2, description = PStr ''Tarefa 2'', completed = PBool False,
                 created_at = PStr ''2024-01-01T10:05:00''\<rparr>,
               \<lparr>item_id = PInt 3, description = PStr ''Tarefa 3'', completed = PBool True,
                 created_at = PStr ''2024-01-01T10:10:00''\<rparr>],
      content = Malformed, saves = 0\<rparr> =
     (2, \<lparr>todos = [\<lparr>item_id = PInt 2, description = PStr ''Tarefa 2'', completed = PBool False,
                     created_at = PStr ''2024-01-01T10:05:00''\<rparr>],
          content = Json (PList
            [PDict [(''id'', PInt 2), (''description'', PStr ''Tarefa 2''),
                    (''completed'', PBool False), (''created_at'', PStr ''2024-01-01T10:05:00'')]]),
          saves = 1\<rparr>) \<and>
   fst (clear_completed (snd (clear_completed \<lparr>todos = [\<lparr>item_id = PInt 1, description = PStr ''Tarefa 1'', completed = PBool True,
                 created_at = PStr ''2024-01-01T10:00:00''\<rparr>,
               \<lparr>item_id = PInt 2, description = PStr ''Tarefa 2'', completed = PBool False,
                 created_at = PStr ''2024-01-01T10:05:00''\<rparr>,
               \<lparr>item_id = PInt 3, description = PStr ''Tarefa 3'', completed = PBool True,
                 created_at = PStr ''2024-01-01T10:10:00''\<rparr>],
      content = Malformed, saves = 0\<rparr>))) = 0"
  (is "?cleared \<and> ?again")
proof -
  have ?cleared
    using clear_completed_result [of "\<lparr>todos = [\<lparr>item_id = PInt 1, description = PStr ''Tarefa 1'', completed = PBool True,
                 created_at = PStr ''2024-01-01T10:00:00''\<rparr>,
               \<lparr>item_id = PInt 2, description = PStr ''Tarefa 2'', completed = PBool False,
                 created_at = PStr ''2024-01-01T10:05:00''\<rparr>,
               \<lparr>item_id = PInt 3, description = PStr ''Tarefa 3'', completed = PBool True,
                 created_at = PStr ''2024-01-01T10:10:00''\<rparr>],
      content = Malformed, saves = 0\<rparr>", THEN conjunct1]
    by (simp add: to_dict_def)
  moreover have ?again
    using clear_completed_result [of "\<lparr>todos = [\<lparr>item_id = PInt 1, description = PStr ''Tarefa 1'', completed = PBool True,
                 created_at = PStr ''2024-01-01T10:00:00''\<rparr>,
               \<lparr>item_id = PInt 2, description = PStr ''Tarefa 2'', completed = PBool False,
                 created_at = PStr ''2024-01-01T10:05:00''\<rparr>,
               \<lparr>item_id = PInt 3, description = PStr ''Tarefa 3'', completed = PBool True,
                 created_at = PStr ''2024-01-01T10:10:00''\<rparr>],
      content = Malformed, saves = 0\<rparr>"] by blast
  ultimately show ?thesis by blast
qed

section \<open>Ids\<close>

text \<open>
  C9, as the code has it. From a collection whose ids are pairwise distinct integers,
  no sequence of calls raises an exception and the ids stay pairwise distinct
  integers. Construction yields such a collection when the file is missing, when it is
  rejected by \<open>json.load\<close>, and when it holds a list of records whose ids are pairwise
  distinct integers; it does not compare the ids it reads.
\<close>

theorem ids_stay_distinct:
  "((\<forall>t\<in>set (todos m). is_int (item_id t)) \<and> distinct (map item_id (todos m)) \<longrightarrow>
      (\<exists>rs m'. run cs m = Inr (rs, m') \<and>
         (\<forall>t\<in>set (todos m'). is_int (item_id t)) \<and> distinct (map item_id (todos m')))) \<and>
   (TodoManager_init clock f = Inr m0 \<and>
      (f = Absent \<or> f = Malformed \<or>
       (\<exists>items ns. f = Json (PList items) \<and>
          map (\<lambda>x. getitem x ''id'') items = map (\<lambda>n. Inr (PInt n)) ns \<and> distinct ns)) \<longrightarrow>
      (\<forall>t\<in>set (todos m0). is_int (item_id t)) \<and> distinct (map item_id (todos m0)))"
  using run_distinct [of m cs] TodoManager_init_distinct [of clock f m0]
  unfolding distinct_int_ids_def by blast

text \<open>A manager loaded from a file with ids 1 and 2, and four calls on it.\<close>

theorem ids_stay_distinct_witness:
  "TodoManager_init (\<lambda>n. ''2025-06-01T12:00:00'') (Json (PList
        [PDict [(''id'', PInt 1), (''description'', PStr ''Buy milk''),
                (''completed'', PBool False), (''created_at'', PStr ''2024-01-01T10:00:00'')],
         PDict [(''id'', PInt 2), (''description'', PStr ''Walk dog''),
                (''completed'', PBool True), (''created_at'', PStr ''2024-01-01T10:05:00'')]])) = Inr \<lparr>todos =
          [\<lparr>item_id = PInt 1, description = PStr ''Buy milk'', completed = PBool False,
             created_at = PStr ''2024-01-01T10:00:00''\<rparr>,
           \<lparr>item_id = PInt 2, description = PStr ''Walk dog'', completed = PBool True,
             created_at = PStr ''2024-01-01T10:05:00''\<rparr>],
        content = (Json (PList
        [PDict [(''id'', PInt 1), (''description'', PStr ''Buy milk''),
                (''completed'', PBool False), (''created_at'', PStr ''2024-01-01T10:00:00'')],
         PDict [(''id'', PInt 2), (''description'', PStr ''Walk dog''),
                (''completed'', PBool True), (''created_at'', PStr ''2024-01-01T10:05:00'')]])), saves = 0\<rparr> \<and>
   distinct (map item_id (todos \<lparr>todos =
          [\<lparr>item_id = PInt 1, description = PStr ''Buy milk'', completed = PBool False,
             created_at = PStr ''2024-01-01T10:00:00''\<rparr>,
           \<lparr>item_id = PInt 2, description = PStr ''Walk dog'', completed = PBool True,
             created_at = PStr ''2024-01-01T10:05:00''\<rparr>],
        content = (Json (PList
        [PDict [(''id'', PInt 1), (''description'', PStr ''Buy milk''),
                (''completed'', PBool False), (''created_at'', PStr ''2024-01-01T10:00:00'')],
         PDict [(''id'', PInt 2), (''description'', PStr ''Walk dog''),
                (''completed'', PBool True), (''created_at'', PStr ''2024-01-01T10:05:00'')]])), saves = 0\<rparr>)) \<and>
   (\<exists>rs m'. run [Remove 1, Add ''Read book'' ''2024-01-01T10:10:00'', ClearCompleted,
                  Add ''Teste'' ''2024-01-01T10:15:00''] \<lparr>todos =
          [\<lparr>item_id = PInt 1, description = PStr ''Buy milk'', completed = PBool False,
             created_at = PStr ''2024-01-01T10:00:00''\<rparr>,
           \<lparr>item_id = PInt 2, description = PStr ''Walk dog'', completed = PBool True,
             created_at = PStr ''2024-01-01T10:05:00''\<rparr>],
        content = (Json (PList
        [PDict [(''id'', PInt 1), (''description'', PStr ''Buy milk''),
                (''completed'', PBool False), (''created_at'', PStr ''2024-01-01T10:00:00'')],
         PDict [(''id'', PInt 2), (''description'', PStr ''Walk dog''),
                (''completed'', PBool True), (''created_at'', PStr ''2024-01-01T10:05:00'')]])), saves = 0\<rparr> = Inr (rs, m') \<and>
      (\<forall>t\<in>set (todos m'). is_int (item_id t)) \<and> distinct (map item_id (todos m')))"
  (is "?init \<and> ?loaded \<and> ?after")
proof -
  have init: ?init
    by (simp add: TodoManager_init_PList from_dict_def TodoItem_init_def py_or_def)
  have stored: "(Json (PList
        [PDict [(''id'', PInt 1), (''description'', PStr ''Buy milk''),
                (''completed'', PBool False), (''created_at'', PStr ''2024-01-01T10:00:00'')],
         PDict [(''id'', PInt 2), (''description'', PStr ''Walk dog''),
                (''completed'', PBool True), (''created_at'', PStr ''2024-01-01T10:05:00'')]])) = Absent \<or> (Json (PList
        [PDict [(''id'', PInt 1), (''description'', PStr ''Buy milk''),
                (''completed'', PBool False), (''created_at'', PStr ''2024-01-01T10:00:00'')],
         PDict [(''id'', PInt 2), (''description'', PStr ''Walk dog''),
                (''completed'', PBool True), (''created_at'', PStr ''2024-01-01T10:05:00'')]])) = Malformed \<or>
      (\<exists>items ns. (Json (PList
        [PDict [(''id'', PInt 1), (''description'', PStr ''Buy milk''),
                (''completed'', PBool False), (''created_at'', PStr ''2024-01-01T10:00:00'')],
         PDict [(''id'', PInt 2), (''description'', PStr ''Walk dog''),
                (''completed'', PBool True), (''created_at'', PStr ''2024-01-01T10:05:00'')]])) = Json (PList items) \<and>
         map (\<lambda>x. getitem x ''id'') items = map (\<lambda>n. Inr (PInt n)) ns \<and> distinct ns)"
  proof (intro disjI2 exI conjI)
    show "(Json (PList
        [PDict [(''id'', PInt 1), (''description'', PStr ''Buy milk''),
                (''completed'', PBool False), (''created_at'', PStr ''2024-01-01T10:00:00'')],
         PDict [(''id'', PInt 2), (''description'', PStr ''Walk dog''),
                (''completed'', PBool True), (''created_at'', PStr ''2024-01-01T10:05:00'')]])) = Json (PList
        [PDict [(''id'', PInt 1), (''description'', PStr ''Buy milk''),
                (''completed'', PBool False), (''created_at'', PStr ''2024-01-01T10:00:00'')],
         PDict [(''id'', PInt 2), (''description'', PStr ''Walk dog''),
                (''completed'', PBool True), (''created_at'', PStr ''2024-01-01T10:05:00'')]])"
      by (rule refl)
    show "map (\<lambda>x. getitem x ''id'')
        [PDict [(''id'', PInt 1), (''description'', PStr ''Buy milk''),
                (''completed'', PBool False), (''created_at'', PStr ''2024-01-01T10:00:00'')],
         PDict [(''id'', PInt 2), (''description'', PStr ''Walk dog''),
                (''completed'', PBool True), (''created_at'', PStr ''2024-01-01T10:05:00'')]] =
        map (\<lambda>n. Inr (PInt n)) [1, 2]"
      by simp
    show "distinct [1, 2 :: int]" by simp
  qed
  from ids_stay_distinct [THEN conjunct2, rule_format, OF conjI, OF init stored]
  have ids: "(\<forall>t\<in>set (todos \<lparr>todos =
          [\<lparr>item_id = PInt 1, description = PStr ''Buy milk'', completed = PBool False,
             created_at = PStr ''2024-01-01T10:00:00''\<rparr>,
           \<lparr>item_id = PInt 2, description = PStr ''Walk dog'', completed = PBool True,
             created_at = PStr ''2024-01-01T10:05:00''\<rparr>],
        content = (Json (PList
        [PDict [(''id'', PInt 1), (''description'', PStr ''Buy milk''),
                (''completed'', PBool False), (''created_at'', PStr ''2024-01-01T10:00:00'')],
         PDict [(''id'', PInt 2), (''description'', PStr ''Walk dog''),
                (''completed'', PBool True), (''created_at'', PStr ''2024-01-01T10:05:00'')]])), saves = 0\<rparr>). is_int (item_id t)) \<and>
      distinct (map item_id (todos \<lparr>todos =
          [\<lparr>item_id = PInt 1, description = PStr ''Buy milk'', completed = PBool False,
             created_at = PStr ''2024-01-01T10:00:00''\<rparr>,
           \<lparr>item_id = PInt 2, description = PStr ''Walk dog'', completed = PBool True,
             created_at = PStr ''2024-01-01T10:05:00''\<rparr>],
        content = (Json (PList
        [PDict [(''id'', PInt 1), (''description'', PStr ''Buy milk''),
                (''completed'', PBool False), (''created_at'', PStr ''2024-01-01T10:00:00'')],
         PDict [(''id'', PInt 2), (''description'', PStr ''Walk dog''),
                (''completed'', PBool True), (''created_at'', PStr ''2024-01-01T10:05:00'')]])), saves = 0\<rparr>))" .
  from ids_stay_distinct [THEN conjunct1, rule_format, OF ids] have ?after .
  with init ids show ?thesis by blast
qed

text \<open>
  C9 as stated fails: two stored records with the same id are both loaded.
\<close>

theorem duplicate_ids_are_loaded:
  "TodoManager_init (\<lambda>n. ''2025-06-01T12:00:00'')
     (Json (PList
        [PDict [(''id'', PInt 1), (''description'', PStr ''Buy milk''),
                (''completed'', PBool False), (''created_at'', PStr ''2024-01-01T10:00:00'')],
         PDict [(''id'', PInt 1), (''description'', PStr ''Walk dog''),
                (''completed'', PBool False), (''created_at'', PStr ''2024-01-01T10:05:00'')]])) =
   Inr \<lparr>todos =
          [\<lparr>item_id = PInt 1, description = PStr ''Buy milk'', completed = PBool False,
             created_at = PStr ''2024-01-01T10:00:00''\<rparr>,
           \<lparr>item_id = PInt 1, description = PStr ''Walk dog'', completed = PBool False,
             created_at = PStr ''2024-01-01T10:05:00''\<rparr>],
        content = Json (PList
        [PDict [(''id'', PInt 1), (''description'', PStr ''Buy milk''),
                (''completed'', PBool False), (''created_at'', PStr ''2024-01-01T10:00:00'')],
         PDict [(''id'', PInt 1), (''description'', PStr ''Walk dog''),
                (''completed'', PBool False), (''created_at'', PStr ''2024-01-01T10:05:00'')]]),
        saves = 0\<rparr> \<and>
   \<not> distinct (map item_id
          [\<lparr>item_id = PInt 1, description = PStr ''Buy milk'', completed = PBool False,
             created_at = PStr ''2024-01-01T10:00:00''\<rparr>,
           \<lparr>item_id = PInt 1, description = PStr ''Walk dog'', completed = PBool False,
             created_at = PStr ''2024-01-01T10:05:00''\<rparr>])"
  by (simp add: TodoManager_init_def load_todos_def read_todos_def json_load_def from_dict_def
      TodoItem_init_def py_or_def)

text \<open>
  C1, as the code has it. After any sequence of calls on a manager whose collection
  was empty, no exception has been raised, the ids in the collection are integers that
  increase strictly along it, and \<open>add_todo\<close> returns a record whose id is an integer
  greater than every id in the collection, and 1 when the collection is empty. An id
  that was removed is therefore returned again only when no record with that id or a
  greater one is left.
\<close>

theorem add_id_exceeds_present_ids:
  assumes "todos m = []"
  shows "\<exists>rs m'. run cs m = Inr (rs, m') \<and>
           sorted_wrt id_less (map item_id (todos m')) \<and>
           (\<exists>t m''. add_todo d now m' = Inr (t, m'') \<and>
              (\<forall>x\<in>set (todos m'). id_less (item_id x) (item_id t)) \<and>
              (todos m' = [] \<longrightarrow> item_id t = PInt 1))"
proof -
  from assms have "increasing_int_ids (todos m)"
    by (simp add: increasing_int_ids_def)
  from run_increasing [OF this, of cs] obtain rs m' where
    run: "run cs m = Inr (rs, m')" and inc: "increasing_int_ids (todos m')"
    by blast
  from inc have ints: "\<forall>v\<in>set (map item_id (todos m')). is_int v"
    and sorted: "sorted_wrt id_less (map item_id (todos m'))"
    by (simp_all add: increasing_int_ids_def)
  from ints obtain ns where ns: "map item_id (todos m') = map PInt ns"
    using ints_as_list by blast
  define t where "t = \<lparr>item_id = PInt ((if ns = [] then 0 else Max (set ns)) + 1),
      description = PStr d, completed = PBool False, created_at = PStr now\<rparr>"
  from add_todo_PInt [OF ns, of d now] obtain m'' where add: "add_todo d now m' = Inr (t, m'')"
    by (simp add: t_def)
  have "\<forall>v\<in>set (map item_id (todos m')). id_less v (item_id t)"
    unfolding ns using id_less_Max_succ by (simp add: t_def)
  then have above: "\<forall>x\<in>set (todos m'). id_less (item_id x) (item_id t)" by simp
  have "ns = []" if "todos m' = []" using ns that by simp
  then have first: "todos m' = [] \<longrightarrow> item_id t = PInt 1" by (simp add: t_def)
  from run sorted add above first show ?thesis by blast
qed

text \<open>Two records are added and the first is removed; the next id is above 2.\<close>

theorem add_id_exceeds_present_ids_witness:
  "todos \<lparr>todos = [], content = Absent, saves = 0\<rparr> = [] \<and>
   (\<exists>rs m'. run [Add ''Buy milk'' ''2024-01-01T10:00:00'', Add ''Walk dog'' ''2024-01-01T10:05:00'',
                  Remove 1]
               \<lparr>todos = [], content = Absent, saves = 0\<rparr> = Inr (rs, m') \<and>
      sorted_wrt id_less (map item_id (todos m')) \<and>
      (\<exists>t m''. add_todo ''Read book'' ''2024-01-01T10:10:00'' m' = Inr (t, m'') \<and>
         (\<forall>x\<in>set (todos m'). id_less (item_id x) (item_id t)) \<and>
         (todos m' = [] \<longrightarrow> item_id t = PInt 1)))"
  using add_id_exceeds_present_ids [of "\<lparr>todos = [], content = Absent, saves = 0\<rparr>"
      "[Add ''Buy milk'' ''2024-01-01T10:00:00'', Add ''Walk dog'' ''2024-01-01T10:05:00'', Remove 1]"
      "''Read book''" "''2024-01-01T10:10:00''"]
  by simp

text \<open>
  C1 as stated fails: the record with the greatest id is removed while another record
  stays, and the next call of \<open>add_todo\<close> returns the removed id 2.
\<close>

theorem removed_id_is_reused:
  "run [Add ''Buy milk'' ''2024-01-01T10:00:00'', Add ''Walk dog'' ''2024-01-01T10:05:00'',
        Remove 2, Add ''Read book'' ''2024-01-01T10:10:00'']
       \<lparr>todos = [], content = Absent, saves = 0\<rparr> =
   Inr ([Item \<lparr>item_id = PInt 1, description = PStr ''Buy milk'', completed = PBool False,
              created_at = PStr ''2024-01-01T10:00:00''\<rparr>,
         Item \<lparr>item_id = PInt 2, description = PStr ''Walk dog'', completed = PBool False,
              created_at = PStr ''2024-01-01T10:05:00''\<rparr>,
         Flag True,
         Item \<lparr>item_id = PInt 2, description = PStr ''Read book'', completed = PBool False,
              created_at = PStr ''2024-01-01T10:10:00''\<rparr>],
        \<lparr>todos =
           [\<lparr>item_id = PInt 1, description = PStr ''Buy milk'', completed = PBool False,
              created_at = PStr ''2024-01-01T10:00:00''\<rparr>,
            \<lparr>item_id = PInt 2, description = PStr ''Read book'', completed = PBool False,
              created_at = PStr ''2024-01-01T10:10:00''\<rparr>],
         content = Json (PList
           [PDict [(''id'', PInt 1), (''description'', PStr ''Buy milk''),
                   (''completed'', PBool False), (''created_at'', PStr ''2024-01-01T10:00:00'')],
            PDict [(''id'', PInt 2), (''description'', PStr ''Read book''),
                   (''completed'', PBool False), (''created_at'', PStr ''2024-01-01T10:10:00'')]]),
         saves = 4\<rparr>)"
  by (simp add: add_todo_def next_id_def TodoItem_init_def py_or_def save_todos_def
      remove_todo_def to_dict_def Let_def)

text \<open>
  The scenario of the specification: two records are added, the first is completed and
  cleared, the second is removed, and the id of the next record is 1.
\<close>

lemma scenario:
  "run [Add ''Buy milk'' ''2024-01-01T10:00:00'', Add ''Walk dog'' ''2024-01-01T10:05:00'',
        Complete 1, ClearCompleted, Remove 2, Add ''Read book'' ''2024-01-01T10:10:00'']
       \<lparr>todos = [], content = Absent, saves = 0\<rparr> =
   Inr ([Item \<lparr>item_id = PInt 1, description = PStr ''Buy milk'', completed = PBool False,
              created_at = PStr ''2024-01-01T10:00:00''\<rparr>,
         Item \<lparr>item_id = PInt 2, description = PStr ''Walk dog'', completed = PBool False,
              created_at = PStr ''2024-01-01T10:05:00''\<rparr>,
         Flag True, Count 1, Flag True,
         Item \<lparr>item_id = PInt 1, description = PStr ''Read book'', completed = PBool False,
              created_at = PStr ''2024-01-01T10:10:00''\<rparr>],
        \<lparr>todos =
           [\<lparr>item_id = PInt 1, description = PStr ''Read book'', completed = PBool False,
              created_at = PStr ''2024-01-01T10:10:00''\<rparr>],
         content = Json (PList
           [PDict [(''id'', PInt 1), (''description'', PStr ''Read book''),
                   (''completed'', PBool False), (''created_at'', PStr ''2024-01-01T10:10:00'')]]),
         saves = 6\<rparr>)"
  by (simp add: add_todo_def next_id_def TodoItem_init_def py_or_def save_todos_def
      remove_todo_def complete_todo_def clear_completed_def to_dict_def Let_def)

end
